theory Spec2Isabelle
  imports Complex_Main "HOL-Library.AList"
begin

section \<open>Python values, errors and tensors\<close>

text \<open>
  The two source files are
  \<^verbatim>\<open>gpytorch/variational/_variational_strategy.py\<close> (the abstract variational strategy) and
  \<^verbatim>\<open>gpytorch/kernels/spectral_autoregressive_flow_kernel.py\<close> (the two spectral kernels).
  Exceptions are values of type \<open>error\<close>; a function that can raise returns
  \<open>error + 'a\<close> with \<open>Inl\<close> for the exception.
\<close>

datatype error =
    RuntimeError string
  | TypeError string
  | IndexError string
  | ValueError string
  | NotImplementedError

text \<open>
  A tensor is its shape together with the value at every multi-index; values at indices
  outside the shape carry no meaning. Where only shapes, cache entries and the weights of
  the second kernel are concerned, floating-point numbers are idealised as real numbers:
  this is the type \<open>tensor\<close>. The plain kernel is modelled over floating-point values
  with their infinities and NaN, further below.
\<close>

record 'a tensor_of =
  shape :: "nat list"
  elem :: "nat list \<Rightarrow> 'a"

type_synonym tensor = "real tensor_of"

text \<open>
  Broadcasting reads a tensor of shape \<open>sh\<close> at an index of a larger shape: the index
  is aligned at the right, and a dimension of size 1 is always read at position 0.
\<close>

definition bidx :: "nat list \<Rightarrow> nat list \<Rightarrow> nat list" where
  "bidx sh idx = map2 (\<lambda>d i. if d = 1 then 0 else i) sh (drop (length idx - length sh) idx)"

text \<open>
  \<^verbatim>\<open>t.expand(*sizes)\<close>: the sizes are aligned with the shape at the right; every
  dimension of the tensor must have the requested size or size 1, and the tensor may not
  have more dimensions than requested; otherwise torch raises a RuntimeError. Called
  with no size at all, it raises a TypeError.
\<close>

definition expandable :: "nat list \<Rightarrow> nat list \<Rightarrow> bool" where
  "expandable sh sizes \<longleftrightarrow>
     length sh \<le> length sizes \<and>
     list_all2 (\<lambda>d n. d = n \<or> d = 1) sh (drop (length sizes - length sh) sizes)"

definition expand :: "nat list \<Rightarrow> tensor \<Rightarrow> error + tensor" where
  "expand sizes t =
     (if sizes = [] then Inl (TypeError ''expand() received an invalid combination of arguments'')
      else if expandable (shape t) sizes
      then Inr \<lparr>shape = sizes, elem = (\<lambda>idx. elem t (bidx (shape t) idx))\<rparr>
      else Inl (RuntimeError ''The expanded size of the tensor must match the existing size''))"

text \<open>\<^verbatim>\<open>shape[-2:]\<close>: the last two sizes, or all of them when there are fewer.\<close>

definition last2 :: "nat list \<Rightarrow> nat list" where
  "last2 sh = drop (length sh - 2) sh"

text \<open>
  The Python objects the strategy handles. \<open>MultivariateNormal mean covar\<close> and
  \<open>Delta mean\<close> are instances of the two distribution classes the strategy dispatches
  on (or of their subclasses); \<open>Object ty\<close> is an instance of any other class, \<open>ty\<close>
  being what \<^verbatim>\<open>type(obj)\<close> prints.
\<close>

datatype pyobj =
    MultivariateNormal tensor tensor
  | Delta tensor
  | Tensor tensor
  | Tuple "pyobj list"
  | Object string

fun type_repr :: "pyobj \<Rightarrow> string" where
  "type_repr (MultivariateNormal _ _) =
     ''<class 'gpytorch.distributions.multivariate_normal.MultivariateNormal'>''"
| "type_repr (Delta _) = ''<class 'gpytorch.distributions.delta.Delta'>''"
| "type_repr (Tensor _) = ''<class 'torch.Tensor'>''"
| "type_repr (Tuple _) = ''<class 'tuple'>''"
| "type_repr (Object ty) = ty"

text \<open>
  \<^verbatim>\<open>a, b = obj\<close>: the object is iterated and must yield exactly two items. A tuple
  yields its components; what an object of another class yields, or the TypeError of
  one that cannot be iterated, is fixed by its class and given by \<open>iter\<close>.
\<close>

fun unpack_items :: "pyobj list \<Rightarrow> error + (pyobj \<times> pyobj)" where
  "unpack_items [a, b] = Inr (a, b)"
| "unpack_items xs =
     Inl (ValueError (if length xs < 2 then ''not enough values to unpack (expected 2)''
                      else ''too many values to unpack (expected 2)''))"

definition unpack2 :: "(pyobj \<Rightarrow> error + pyobj list) \<Rightarrow> pyobj \<Rightarrow> error + (pyobj \<times> pyobj)" where
  "unpack2 iter obj =
     (case obj of
        Tuple xs \<Rightarrow> unpack_items xs
      | _ \<Rightarrow> (case iter obj of Inl e \<Rightarrow> Inl e | Inr xs \<Rightarrow> unpack_items xs))"


section \<open>The variational strategy\<close>

text \<open>
  What the strategy calls on its collaborators is recorded in a log, so that statements
  about which calls happen, how often and in what order can be made.
\<close>

datatype event =
    Cache_reset
  | Cache_deleted
  | Model_forward_called tensor
  | Prior_computed
  | Variational_initialized pyobj
  | Variational_generated
  | Cholesky_computed
  | Forward_called tensor tensor tensor "tensor option"

text \<open>
  The state of one instance of \<^verbatim>\<open>_VariationalStrategy\<close>. \<open>memoize_cache\<close> is the
  attribute \<^verbatim>\<open>_memoize_cache\<close>: \<open>None\<close> when the instance has no such attribute,
  otherwise the dictionary, in insertion order. \<open>generator\<close> is the state of the object
  \<^verbatim>\<open>self._variational_distribution\<close>. \<open>training\<close> is the flag of
  \<^verbatim>\<open>torch.nn.Module\<close>.
\<close>

record 'g strategy =
  training :: bool
  inducing_points :: tensor
  generator :: 'g
  variational_params_initialized :: int
  memoize_cache :: "(string \<times> pyobj) list option"
  events :: "event list"

text \<open>
  The collaborators: the user's model, the concrete subclass (its
  \<^verbatim>\<open>prior_distribution\<close> body and its \<^verbatim>\<open>forward\<close>), the methods of the
  variational-distribution object, the iteration that the classes of other objects
  define, the Cholesky routine and torch's KL divergence. Each of them may raise.
  \<^verbatim>\<open>initialize_variational_distribution\<close> changes the variational-distribution object in
  place: it returns the object's new state in either case, with the exception when it
  raises. Effects of a subclass's methods on the strategy's own fields are not part of
  this model.
\<close>

record 'g collaborators =
  model_forward :: "tensor \<Rightarrow> error + pyobj"
  prior_impl :: "tensor \<Rightarrow> error + pyobj"
  forward_impl :: "tensor \<Rightarrow> tensor \<Rightarrow> tensor \<Rightarrow> tensor option \<Rightarrow> error + pyobj"
  generate :: "'g \<Rightarrow> error + pyobj"
  initialize_variational_distribution :: "pyobj \<Rightarrow> 'g \<Rightarrow> (error + unit) \<times> 'g"
  batch_shape :: "'g \<Rightarrow> nat list"
  iterate :: "pyobj \<Rightarrow> error + pyobj list"
  psd_safe_cholesky :: "tensor \<Rightarrow> error + tensor"
  kl :: "pyobj \<Rightarrow> pyobj \<Rightarrow> error + pyobj"

definition log_event :: "event \<Rightarrow> 'g strategy \<Rightarrow> 'g strategy" where
  "log_event e s = s\<lparr>events := events s @ [e]\<rparr>"

subsection \<open>The memoization decorator\<close>

text \<open>
  The module \<^verbatim>\<open>gpytorch/utils/memoize.py\<close>, which holds the decorator \<^verbatim>\<open>cached\<close>, is not
  among the source files; the three definitions of this subsection stand for it.
\<close>

text \<open>
  Modelled from the spec: looking a name up in the cache of an instance. The spec keys
  every cache entry by a name string and stores it per strategy instance; an instance
  without the cache attribute has no entry.
\<close>

definition cache_lookup :: "string \<Rightarrow> 'g strategy \<Rightarrow> pyobj option" where
  "cache_lookup name s = (case memoize_cache s of None \<Rightarrow> None | Some c \<Rightarrow> map_of c name)"

text \<open>
  Modelled from the spec: storing a value under a name. The spec has entries created
  lazily, so the dictionary itself is created with the first entry.
\<close>

definition add_to_cache :: "string \<Rightarrow> pyobj \<Rightarrow> 'g strategy \<Rightarrow> 'g strategy" where
  "add_to_cache name v s =
     s\<lparr>memoize_cache :=
         Some (AList.update name v (case memoize_cache s of None \<Rightarrow> [] | Some c \<Rightarrow> c))\<rparr>"

text \<open>
  Modelled from the spec: the decorator \<^verbatim>\<open>cached\<close>. The spec describes a cache entry as a
  value computed on demand, keyed by a name string and stored per strategy instance,
  created lazily on first access: a decorated method returns the entry stored under its
  name when there is one, and otherwise runs its body and stores the result under that
  name. A body that raises stores nothing.
\<close>

definition cached ::
  "string \<Rightarrow> ('g strategy \<Rightarrow> (error + pyobj) \<times> 'g strategy) \<Rightarrow>
   'g strategy \<Rightarrow> (error + pyobj) \<times> 'g strategy" where
  "cached name body s =
     (case cache_lookup name s of
        Some v \<Rightarrow> (Inr v, s)
      | None \<Rightarrow>
          (case body s of
             (Inl e, s') \<Rightarrow> (Inl e, s')
           | (Inr v, s') \<Rightarrow> (Inr v, add_to_cache name v s')))"

subsection \<open>Construction and the cached members\<close>

text \<open>\<^verbatim>\<open>unsqueeze(-1)\<close> of a tensor: a new last dimension of size 1.\<close>

definition unsqueeze_last :: "tensor \<Rightarrow> tensor" where
  "unsqueeze_last t = \<lparr>shape = shape t @ [1], elem = (\<lambda>idx. elem t (butlast idx))\<rparr>"

text \<open>
  \<^verbatim>\<open>__init__\<close>: a one-dimensional point set gets a trailing dimension; the
  initialisation flag is the tensor 0; a fresh module is in training mode and has no
  cache attribute. Whether the points are a parameter or a buffer makes no difference
  to anything below.
\<close>

definition init_strategy :: "tensor \<Rightarrow> 'g \<Rightarrow> 'g strategy" where
  "init_strategy points gen =
     \<lparr>training = True,
      inducing_points = (if length (shape points) = 1 then unsqueeze_last points else points),
      generator = gen,
      variational_params_initialized = 0,
      memoize_cache = None,
      events = []\<rparr>"

text \<open>
  \<^verbatim>\<open>_cholesky_factor\<close>, cached under one name whatever its argument. The routine
  \<^verbatim>\<open>psd_safe_cholesky\<close> is a collaborator and may raise.
\<close>

definition cholesky_factor ::
  "'g collaborators \<Rightarrow> tensor \<Rightarrow> 'g strategy \<Rightarrow> (error + pyobj) \<times> 'g strategy" where
  "cholesky_factor env induc_induc_covar =
     cached ''cholesky_factor''
       (\<lambda>s. (case psd_safe_cholesky env induc_induc_covar of
                Inl e \<Rightarrow> Inl e | Inr L \<Rightarrow> Inr (Tensor L),
             log_event Cholesky_computed s))"

text \<open>
  \<^verbatim>\<open>prior_distribution\<close> is abstract: an instance exists only of a subclass that
  supplies the body, here \<open>prior_impl\<close>, which computes \<open>p(u)\<close> at the inducing points.
\<close>

definition prior_distribution ::
  "'g collaborators \<Rightarrow> 'g strategy \<Rightarrow> (error + pyobj) \<times> 'g strategy" where
  "prior_distribution env =
     cached ''prior_distribution_memo''
       (\<lambda>s. (prior_impl env (inducing_points s), log_event Prior_computed s))"

definition variational_distribution ::
  "'g collaborators \<Rightarrow> 'g strategy \<Rightarrow> (error + pyobj) \<times> 'g strategy" where
  "variational_distribution env =
     cached ''variational_distribution_memo''
       (\<lambda>s. (generate env (generator s), log_event Variational_generated s))"

text \<open>
  \<^verbatim>\<open>kl_divergence\<close> reads both cached properties, the variational distribution first.
  The setting it makes for the duration of the computation does not show in the state.
\<close>

definition kl_divergence ::
  "'g collaborators \<Rightarrow> 'g strategy \<Rightarrow> (error + pyobj) \<times> 'g strategy" where
  "kl_divergence env s =
     (case variational_distribution env s of
        (Inl e, s1) \<Rightarrow> (Inl e, s1)
      | (Inr q, s1) \<Rightarrow>
          (case prior_distribution env s1 of
             (Inl e, s2) \<Rightarrow> (Inl e, s2)
           | (Inr p, s2) \<Rightarrow> (kl env q p, s2)))"

subsection \<open>\<^verbatim>\<open>train\<close> and \<^verbatim>\<open>__call__\<close>\<close>

text \<open>
  \<^verbatim>\<open>train(mode)\<close> deletes the cache attribute when the instance leaves training mode or
  when \<open>mode\<close> is true, then sets the flag as \<^verbatim>\<open>torch.nn.Module.train\<close> does.
\<close>

definition train :: "bool \<Rightarrow> 'g strategy \<Rightarrow> 'g strategy" where
  "train mode s =
     (let s1 = (if (training s \<and> \<not> mode) \<or> mode
                then (if memoize_cache s \<noteq> None
                      then log_event Cache_deleted (s\<lparr>memoize_cache := None\<rparr>) else s)
                else s)
      in s1\<lparr>training := mode\<rparr>)"

text \<open>Lines 116 to 119: in training mode an existing cache is replaced by an empty one.\<close>

definition delete_cached_items :: "'g strategy \<Rightarrow> 'g strategy" where
  "delete_cached_items s =
     (if training s
      then (if memoize_cache s \<noteq> None
            then log_event Cache_reset (s\<lparr>memoize_cache := Some []\<rparr>) else s)
      else s)"

text \<open>
  Lines 121 to 124: the initialisation from the prior. The flag is filled with 1 after
  \<^verbatim>\<open>initialize_variational_distribution\<close> has returned; when the prior or the
  initialisation raises, the flag stays as it is. \<open>Variational_initialized\<close> is logged
  for every call of \<^verbatim>\<open>initialize_variational_distribution\<close>, whether it returns or not.
\<close>

definition maybe_initialize ::
  "'g collaborators \<Rightarrow> 'g strategy \<Rightarrow> (error + unit) \<times> 'g strategy" where
  "maybe_initialize env s =
     (if variational_params_initialized s = 0
      then (case prior_distribution env s of
              (Inl e, s1) \<Rightarrow> (Inl e, s1)
            | (Inr prior_dist, s1) \<Rightarrow>
                (case initialize_variational_distribution env prior_dist (generator s1) of
                   (Inl e, g) \<Rightarrow>
                     (Inl e, (log_event (Variational_initialized prior_dist) s1)\<lparr>generator := g\<rparr>)
                 | (Inr _, g) \<Rightarrow>
                     (Inr (),
                      (log_event (Variational_initialized prior_dist) s1)
                        \<lparr>generator := g, variational_params_initialized := 1\<rparr>)))
      else (Inr (), s))"

text \<open>The message of the RuntimeError of lines 150 to 153.\<close>

definition invalid_distribution :: "pyobj \<Rightarrow> error" where
  "invalid_distribution q =
     RuntimeError (''Invalid variational distribuition ('' @ type_repr q @
       ''). Expected a multivariate normal or a delta distribution.'')"

text \<open>Lines 137 to 158: the dispatch on the class of \<open>q(u)\<close> and the return value.\<close>

definition get_q_f ::
  "'g collaborators \<Rightarrow> tensor \<Rightarrow> tensor \<Rightarrow> pyobj \<Rightarrow> bool \<Rightarrow>
   'g strategy \<Rightarrow> (error + pyobj) \<times> 'g strategy" where
  "get_q_f env x points variational_dist_u return_map_dist s =
     (let ret = (\<lambda>pred pred_map. if return_map_dist then Tuple [pred, pred_map] else pred)
      in case variational_dist_u of
        MultivariateNormal mean covar \<Rightarrow>
          (case forward_impl env x points mean (Some covar) of
             Inl e \<Rightarrow> (Inl e, log_event (Forward_called x points mean (Some covar)) s)
           | Inr r \<Rightarrow>
               (case unpack2 (iterate env) r of
                  Inl e \<Rightarrow> (Inl e, log_event (Forward_called x points mean (Some covar)) s)
                | Inr (pred, pred_map) \<Rightarrow>
                    (Inr (ret pred pred_map),
                     log_event (Forward_called x points mean (Some covar)) s)))
      | Delta mean \<Rightarrow>
          (case forward_impl env x points mean None of
             Inl e \<Rightarrow> (Inl e, log_event (Forward_called x points mean None) s)
           | Inr pred \<Rightarrow>
               (Inr (ret pred pred), log_event (Forward_called x points mean None) s))
      | other \<Rightarrow>
          (Inl (invalid_distribution other), s))"

definition call ::
  "'g collaborators \<Rightarrow> tensor \<Rightarrow> bool \<Rightarrow> bool \<Rightarrow> 'g strategy \<Rightarrow>
   (error + pyobj) \<times> 'g strategy" where
  "call env x prior return_map_dist s =
     (if prior then (model_forward env x, log_event (Model_forward_called x) s)
      else
        (case maybe_initialize env (delete_cached_items s) of
           (Inl e, s2) \<Rightarrow> (Inl e, s2)
         | (Inr _, s2) \<Rightarrow>
             (let bs = batch_shape env (generator s2) in
              case expand (bs @ last2 (shape (inducing_points s2))) (inducing_points s2) of
                Inl e \<Rightarrow> (Inl e, s2)
              | Inr points \<Rightarrow>
                  (case expand (bs @ last2 (shape x)) x of
                     Inl e \<Rightarrow> (Inl e, s2)
                   | Inr x' \<Rightarrow>
                       (case variational_distribution env s2 of
                          (Inl e, s3) \<Rightarrow> (Inl e, s3)
                        | (Inr variational_dist_u, s3) \<Rightarrow>
                            get_q_f env x' points variational_dist_u return_map_dist s3)))))"


subsection \<open>Observing one invocation and whole lifetimes\<close>

text \<open>
  \<open>prepared env s\<close> is the state of a non-prior invocation after lines 116 to 124 (the
  cache handling and the initialisation), \<open>preparation env s\<close> tells whether these
  lines returned or raised, and \<open>retrieved_q env s\<close> is what line 134 then retrieves as
  \<open>q(u)\<close>, or the exception that kept the invocation from getting a \<open>q(u)\<close>.
\<close>

definition prepared :: "'g collaborators \<Rightarrow> 'g strategy \<Rightarrow> 'g strategy" where
  "prepared env s = snd (maybe_initialize env (delete_cached_items s))"

definition preparation :: "'g collaborators \<Rightarrow> 'g strategy \<Rightarrow> error + unit" where
  "preparation env s = fst (maybe_initialize env (delete_cached_items s))"

definition retrieved_q :: "'g collaborators \<Rightarrow> 'g strategy \<Rightarrow> error + pyobj" where
  "retrieved_q env s =
     (case preparation env s of
        Inl e \<Rightarrow> Inl e
      | Inr _ \<Rightarrow> fst (variational_distribution env (prepared env s)))"

definition expanded_points :: "'g collaborators \<Rightarrow> 'g strategy \<Rightarrow> error + tensor" where
  "expanded_points env s =
     expand (batch_shape env (generator (prepared env s)) @
               last2 (shape (inducing_points (prepared env s))))
       (inducing_points (prepared env s))"

definition expanded_x :: "'g collaborators \<Rightarrow> tensor \<Rightarrow> 'g strategy \<Rightarrow> error + tensor" where
  "expanded_x env x s = expand (batch_shape env (generator (prepared env s)) @ last2 (shape x)) x"

fun is_MultivariateNormal :: "pyobj \<Rightarrow> bool" where
  "is_MultivariateNormal (MultivariateNormal _ _) = True"
| "is_MultivariateNormal _ = False"

fun is_Delta :: "pyobj \<Rightarrow> bool" where
  "is_Delta (Delta _) = True"
| "is_Delta _ = False"

text \<open>
  The life of an instance is a sequence of uses of its public members, starting from
  the constructed state.
\<close>

datatype use =
    Call tensor bool bool
  | Train bool
  | Prior_distribution
  | Variational_distribution
  | Cholesky_factor tensor
  | Kl_divergence

fun use_step :: "'g collaborators \<Rightarrow> 'g strategy \<Rightarrow> use \<Rightarrow> 'g strategy" where
  "use_step env s (Call x prior return_map_dist) = snd (call env x prior return_map_dist s)"
| "use_step env s (Train mode) = train mode s"
| "use_step env s Prior_distribution = snd (prior_distribution env s)"
| "use_step env s Variational_distribution = snd (variational_distribution env s)"
| "use_step env s (Cholesky_factor m) = snd (cholesky_factor env m s)"
| "use_step env s Kl_divergence = snd (kl_divergence env s)"

definition lifetime :: "'g collaborators \<Rightarrow> 'g strategy \<Rightarrow> use list \<Rightarrow> 'g strategy" where
  "lifetime env s uses = foldl (use_step env) s uses"

fun is_initialization :: "event \<Rightarrow> bool" where
  "is_initialization (Variational_initialized _) = True"
| "is_initialization _ = False"

definition initializations :: "'g strategy \<Rightarrow> nat" where
  "initializations s = length (filter is_initialization (events s))"

fun is_nonprior_call :: "use \<Rightarrow> bool" where
  "is_nonprior_call (Call _ prior _) = (\<not> prior)"
| "is_nonprior_call _ = False"

text \<open>The events a step of the program adds to the log.\<close>

definition new_events :: "'g strategy \<Rightarrow> 'g strategy \<Rightarrow> event list" where
  "new_events s t = drop (length (events s)) (events t)"

text \<open>
  The parts of a non-prior invocation, as they show in the log: resetting the cache
  comes under phase 0, the initialisation (computing the prior and handing it to the
  generator) under phase 1, the retrieval of \<open>q(u)\<close> under phase 2 and the
  marginalisation under phase 3.
\<close>

fun phase :: "event \<Rightarrow> nat" where
  "phase Cache_reset = 0"
| "phase Prior_computed = 1"
| "phase (Variational_initialized _) = 1"
| "phase Variational_generated = 2"
| "phase (Forward_called _ _ _ _) = 3"
| "phase _ = 4"

text \<open>
  The prior that line 122 reads in an invocation from state \<open>s\<close>, through the cached
  property, after the cache handling of lines 116 to 119, or the exception it raises.
\<close>

definition used_prior :: "'g collaborators \<Rightarrow> 'g strategy \<Rightarrow> error + pyobj" where
  "used_prior env s = fst (prior_distribution env (delete_cached_items s))"

text \<open>The events of lines 116 to 124 in an invocation from state \<open>s\<close>.\<close>

definition preparation_events :: "'g collaborators \<Rightarrow> 'g strategy \<Rightarrow> event list" where
  "preparation_events env s =
     (if training s \<and> memoize_cache s \<noteq> None then [Cache_reset] else []) @
     (if variational_params_initialized s = 0
      then (if cache_lookup ''prior_distribution_memo'' (delete_cached_items s) = None
            then [Prior_computed] else []) @
           (case used_prior env s of Inl e \<Rightarrow> [] | Inr p \<Rightarrow> [Variational_initialized p])
      else [])"

text \<open>
  Two kinds of state in the life of an instance built with generator state \<open>gen\<close>: before
  any call of \<^verbatim>\<open>initialize_variational_distribution\<close> (the flag is 0, the generator is
  as it was built, and the cache holds no prior or the prior \<open>p\<close>), and after the one
  call that returned and left the generator in state \<open>g\<close>.
\<close>

definition before_initialization :: "'g \<Rightarrow> tensor \<Rightarrow> pyobj \<Rightarrow> 'g strategy \<Rightarrow> bool" where
  "before_initialization gen points p s \<longleftrightarrow>
     variational_params_initialized s = 0 \<and> generator s = gen \<and> initializations s = 0
     \<and> inducing_points s = points
     \<and> (cache_lookup ''prior_distribution_memo'' s = None
        \<or> cache_lookup ''prior_distribution_memo'' s = Some p)"

definition after_initialization :: "'g \<Rightarrow> 'g strategy \<Rightarrow> bool" where
  "after_initialization g s \<longleftrightarrow>
     variational_params_initialized s = 1 \<and> generator s = g \<and> initializations s = 1"

subsection \<open>Example inputs\<close>

definition example_points :: tensor where
  "example_points = \<lparr>shape = [5, 2], elem = (\<lambda>idx. 0)\<rparr>"

definition example_x :: tensor where
  "example_x = \<lparr>shape = [3, 2], elem = (\<lambda>idx. 1)\<rparr>"

text \<open>
  A test double: the generator's state counts the calls of its initialisation and its
  distribution is the given object \<open>q\<close>; the marginalisation returns a pair when it is
  given a covariance and a single distribution otherwise.
\<close>

definition example_env :: "pyobj \<Rightarrow> nat collaborators" where
  "example_env q =
     \<lparr>model_forward = (\<lambda>x. Inr (MultivariateNormal x x)),
      prior_impl = (\<lambda>z. Inr (MultivariateNormal z z)),
      forward_impl = (\<lambda>x z m c. case c of
          None \<Rightarrow> Inr (MultivariateNormal x m)
        | Some c' \<Rightarrow> Inr (Tuple [MultivariateNormal x c', MultivariateNormal x m])),
      generate = (\<lambda>g. Inr q),
      initialize_variational_distribution = (\<lambda>p g. (Inr (), Suc g)),
      batch_shape = (\<lambda>g. []),
      iterate = (\<lambda>obj. Inl (TypeError ''cannot unpack non-iterable object'')),
      psd_safe_cholesky = (\<lambda>m. Inr m),
      kl = (\<lambda>q p. Inr (Tensor example_x))\<rparr>"

text \<open>
  The same with a variational distribution laid out for another number of inducing
  points: copying the prior's parameters into it raises, every time.
\<close>

definition example_mismatch :: error where
  "example_mismatch = RuntimeError ''The size of tensor a must match the size of tensor b''"

definition example_failing_env :: "pyobj \<Rightarrow> nat collaborators" where
  "example_failing_env q =
     (example_env q)\<lparr>initialize_variational_distribution := (\<lambda>p g. (Inl example_mismatch, Suc g))\<rparr>"

definition example_strategy :: "nat strategy" where
  "example_strategy = init_strategy example_points 0"

definition example_object :: pyobj where
  "example_object = Object ''<class 'torch.distributions.gamma.Gamma'>''"


text \<open>
  An instance that has been invoked once (which initialised it), then put into
  evaluation mode, and whose variational distribution has been read since.
\<close>

definition example_settled_strategy :: "pyobj \<Rightarrow> nat strategy" where
  "example_settled_strategy q =
     lifetime (example_env q) example_strategy
       [Call example_x False False, Train False, Variational_distribution]"


text \<open>
  An instance in training mode that has been invoked once and whose Cholesky factor has
  been computed since.
\<close>

definition example_warm_strategy :: "pyobj \<Rightarrow> nat strategy" where
  "example_warm_strategy q =
     lifetime (example_env q) example_strategy
       [Call example_x False False, Cholesky_factor example_points]"

text \<open>A fresh instance, still in training mode, whose prior has been read once.\<close>

definition example_cached_strategy :: "nat strategy" where
  "example_cached_strategy =
     lifetime (example_env (Delta example_x)) example_strategy [Prior_distribution]"


section \<open>The spectral kernels\<close>

subsection \<open>Tensor operations\<close>

definition then_do :: "error + 'a \<Rightarrow> ('a \<Rightarrow> error + 'b) \<Rightarrow> error + 'b" where
  "then_do m f = (case m of Inl e \<Rightarrow> Inl e | Inr v \<Rightarrow> f v)"

text \<open>
  A dimension argument \<open>d\<close> of an operation over \<open>n\<close> positions may be negative and then
  counts from the end; outside \<open>-n \<le> d < n\<close> torch raises an IndexError.
\<close>

definition wrap_dim :: "int \<Rightarrow> nat \<Rightarrow> error + nat" where
  "wrap_dim d n =
     (if - int n \<le> d \<and> d < int n then Inr (nat (if d < 0 then d + int n else d))
      else Inl (IndexError ''Dimension out of range''))"

definition unsqueeze :: "int \<Rightarrow> 'a tensor_of \<Rightarrow> error + 'a tensor_of" where
  "unsqueeze d t =
     then_do (wrap_dim d (length (shape t) + 1)) (\<lambda>p.
       Inr \<lparr>shape = take p (shape t) @ [1] @ drop p (shape t),
            elem = (\<lambda>idx. elem t (take p idx @ drop (Suc p) idx))\<rparr>)"

definition transpose_dims :: "int \<Rightarrow> int \<Rightarrow> 'a tensor_of \<Rightarrow> error + 'a tensor_of" where
  "transpose_dims d0 d1 t =
     then_do (wrap_dim d0 (max 1 (length (shape t)))) (\<lambda>p0.
     then_do (wrap_dim d1 (max 1 (length (shape t)))) (\<lambda>p1.
       Inr \<lparr>shape = (shape t)[p0 := shape t ! p1, p1 := shape t ! p0],
            elem = (\<lambda>idx. elem t (idx[p0 := idx ! p1, p1 := idx ! p0]))\<rparr>))"

text \<open>The shape of a broadcast, computed on the reversed shapes.\<close>

fun bshape_rev :: "nat list \<Rightarrow> nat list \<Rightarrow> error + nat list" where
  "bshape_rev [] ys = Inr ys"
| "bshape_rev (x # xs) [] = Inr (x # xs)"
| "bshape_rev (x # xs) (y # ys) =
     (if x = y \<or> y = 1 then then_do (bshape_rev xs ys) (\<lambda>r. Inr (x # r))
      else if x = 1 then then_do (bshape_rev xs ys) (\<lambda>r. Inr (y # r))
      else Inl (RuntimeError ''The size of tensor a must match the size of tensor b''))"

definition broadcast_shapes :: "nat list \<Rightarrow> nat list \<Rightarrow> error + nat list" where
  "broadcast_shapes a b = then_do (bshape_rev (rev a) (rev b)) (\<lambda>r. Inr (rev r))"

definition binop ::
  "('a \<Rightarrow> 'b \<Rightarrow> 'c) \<Rightarrow> 'a tensor_of \<Rightarrow> 'b tensor_of \<Rightarrow> error + 'c tensor_of" where
  "binop f a b =
     then_do (broadcast_shapes (shape a) (shape b)) (\<lambda>sh.
       Inr \<lparr>shape = sh,
            elem = (\<lambda>idx. f (elem a (bidx (shape a) idx)) (elem b (bidx (shape b) idx)))\<rparr>)"

text \<open>All indices of a shape, in row-major order.\<close>

fun indices :: "nat list \<Rightarrow> nat list list" where
  "indices [] = [[]]"
| "indices (n # ns) = concat (map (\<lambda>i. map ((#) i) (indices ns)) [0..<n])"

text \<open>
  Operations on real entries, used for the second kernel. Where torch would produce an
  infinity or a NaN and go on (a division by zero, the mean or the log-sum-exp over an
  empty axis), the real numbers have no value to give: the real-valued model stops there
  with \<open>NonFinite\<close>, which stands for a returned tensor with non-finite entries, not for
  an exception of the program.
\<close>

definition NonFinite :: error where
  "NonFinite = ValueError ''inf or nan''"

definition sub_t :: "tensor \<Rightarrow> tensor \<Rightarrow> error + tensor" where
  "sub_t = binop (-)"

definition mul_t :: "tensor \<Rightarrow> tensor \<Rightarrow> error + tensor" where
  "mul_t = binop (*)"

definition div_t :: "tensor \<Rightarrow> tensor \<Rightarrow> error + tensor" where
  "div_t a b =
     (if list_all (\<lambda>idx. elem b idx \<noteq> 0) (indices (shape b)) then binop (/) a b
      else Inl NonFinite)"

definition map_t :: "('a \<Rightarrow> 'b) \<Rightarrow> 'a tensor_of \<Rightarrow> 'b tensor_of" where
  "map_t f t = \<lparr>shape = shape t, elem = (\<lambda>idx. f (elem t idx))\<rparr>"

definition mul_scalar :: "real \<Rightarrow> tensor \<Rightarrow> tensor" where
  "mul_scalar c = map_t (\<lambda>v. v * c)"

definition cos_t :: "tensor \<Rightarrow> tensor" where
  "cos_t = map_t cos"

definition exp_t :: "tensor \<Rightarrow> tensor" where
  "exp_t = map_t exp"

text \<open>
  Reductions along one dimension: the entry at \<open>idx\<close> of the result combines the
  entries of the argument at \<open>idx\<close> with every position \<open>s\<close> put in at the reduced
  dimension. A tensor without dimensions is its own sum and mean.
\<close>

definition along :: "nat \<Rightarrow> 'a tensor_of \<Rightarrow> nat list \<Rightarrow> 'a list" where
  "along p t idx = map (\<lambda>s. elem t (take p idx @ [s] @ drop p idx)) [0..<shape t ! p]"

definition sum_dim :: "int \<Rightarrow> tensor \<Rightarrow> error + tensor" where
  "sum_dim d t =
     then_do (wrap_dim d (max 1 (length (shape t)))) (\<lambda>p.
       if shape t = [] then Inr t
       else Inr \<lparr>shape = take p (shape t) @ drop (Suc p) (shape t),
                 elem = (\<lambda>idx. sum_list (along p t idx))\<rparr>)"

definition mean_dim :: "int \<Rightarrow> tensor \<Rightarrow> error + tensor" where
  "mean_dim d t =
     then_do (wrap_dim d (max 1 (length (shape t)))) (\<lambda>p.
       if shape t = [] then Inr t
       else if shape t ! p = 0 then Inl NonFinite
       else Inr \<lparr>shape = take p (shape t) @ drop (Suc p) (shape t),
                 elem = (\<lambda>idx. sum_list (along p t idx) / real (shape t ! p))\<rparr>)"

definition logsumexp :: "tensor \<Rightarrow> int \<Rightarrow> error + tensor" where
  "logsumexp t d =
     then_do (wrap_dim d (max 1 (length (shape t)))) (\<lambda>p.
       if shape t = [] then Inr t
       else if shape t ! p = 0 then Inl NonFinite
       else Inr \<lparr>shape = take p (shape t) @ drop (Suc p) (shape t),
                 elem = (\<lambda>idx. ln (sum_list (map exp (along p t idx))))\<rparr>)"

text \<open>
  \<^verbatim>\<open>view\<close> keeps the row-major order of the entries and needs the same number of them.
\<close>

definition ravel :: "nat list \<Rightarrow> nat list \<Rightarrow> nat" where
  "ravel sh idx = foldl (\<lambda>acc (n, i). acc * n + i) 0 (zip sh idx)"

fun unravel :: "nat list \<Rightarrow> nat \<Rightarrow> nat list" where
  "unravel [] k = []"
| "unravel (n # ns) k = (k div prod_list ns) # unravel ns (k mod prod_list ns)"

definition view :: "nat list \<Rightarrow> tensor \<Rightarrow> error + tensor" where
  "view sizes t =
     (if prod_list sizes = prod_list (shape t)
      then Inr \<lparr>shape = sizes, elem = (\<lambda>idx. elem t (unravel (shape t) (ravel sizes idx)))\<rparr>
      else Inl (RuntimeError ''shape is invalid for input size''))"

text \<open>\<^verbatim>\<open>torch.equal\<close>: the same shape and the same entries.\<close>

definition torch_equal :: "tensor \<Rightarrow> tensor \<Rightarrow> bool" where
  "torch_equal a b \<longleftrightarrow>
     shape a = shape b \<and> list_all (\<lambda>idx. elem a idx = elem b idx) (indices (shape a))"

subsection \<open>The flow-transformed distribution\<close>

text \<open>
  The distribution \<^verbatim>\<open>dsf_dist\<close> belongs to pyro. What one evaluation of a kernel gets
  from it is a parameter of the model: \<open>draws s k\<close> is coordinate \<open>k\<close> of the \<open>s\<close>-th
  sample that \<^verbatim>\<open>rsample\<close> returns, and \<open>logp s\<close> is the log-density that
  \<^verbatim>\<open>log_prob\<close> gives to the \<open>s\<close>-th sample. Lines 60 to 68 and 96 to 104, which build
  the distribution from the flow or the list of flows, therefore leave no other trace.
\<close>

definition rsample :: "(nat \<Rightarrow> nat \<Rightarrow> real) \<Rightarrow> nat \<Rightarrow> nat \<Rightarrow> tensor" where
  "rsample draws S D =
     \<lparr>shape = [S, D], elem = (\<lambda>idx. case idx of [s, k] \<Rightarrow> draws s k | _ \<Rightarrow> 0)\<rparr>"

definition log_prob :: "(nat \<Rightarrow> real) \<Rightarrow> tensor \<Rightarrow> tensor" where
  "log_prob logp samples =
     \<lparr>shape = butlast (shape samples), elem = (\<lambda>idx. case idx of [s] \<Rightarrow> logp s | _ \<Rightarrow> 0)\<rparr>"

subsection \<open>Construction\<close>

text \<open>The arguments a caller may pass for \<^verbatim>\<open>stack_size\<close>: an integer or a list.\<close>

datatype pyarg = PyInt int | PyList "pyarg list"

fun type_name :: "pyarg \<Rightarrow> string" where
  "type_name (PyInt _) = ''int''"
| "type_name (PyList _) = ''list''"

text \<open>
  Python's \<^verbatim>\<open>a > b\<close>: integers compare by value, lists compare with lists
  lexicographically, and a list and an integer do not compare at all.
\<close>

fun py_gt :: "pyarg \<Rightarrow> pyarg \<Rightarrow> error + bool" where
  "py_gt (PyInt a) (PyInt b) = Inr (a > b)"
| "py_gt (PyList []) (PyList ys) = Inr False"
| "py_gt (PyList (x # xs)) (PyList []) = Inr True"
| "py_gt (PyList (x # xs)) (PyList (y # ys)) =
     (if x = y then py_gt (PyList xs) (PyList ys) else py_gt x y)"
| "py_gt a b =
     Inl (TypeError (''> not supported between instances of '' @ type_name a @
                     '' and '' @ type_name b))"

datatype 'kw flow = BlockAutoregressive nat 'kw | ModuleList "'kw flow list"

record 'kw kernel =
  lengthscale :: tensor
  dsf :: "'kw flow"
  num_dims :: nat
  kernel_training :: bool

text \<open>
  \<^verbatim>\<open>SpectralAutoregressiveFlowKernel.__init__\<close>. The constructor of the base class
  \<^verbatim>\<open>Kernel\<close>, which is called first, registers the lengthscale: \<open>kwargs\<close> stands for
  keyword arguments that this constructor accepts, and \<open>ls\<close> is the tensor it holds
  afterwards. The same keyword arguments then go to pyro's
  \<^verbatim>\<open>BlockAutoregressive\<close>, which raises a TypeError for a keyword it does not know:
  \<open>flow_rejects kwargs\<close> is that exception, if there is one. \<^verbatim>\<open>range\<close> of a list raises
  a TypeError.
\<close>

definition SpectralAutoregressiveFlowKernel_init ::
  "('kw \<Rightarrow> error option) \<Rightarrow> tensor \<Rightarrow> nat \<Rightarrow> pyarg \<Rightarrow> 'kw \<Rightarrow> error + 'kw kernel" where
  "SpectralAutoregressiveFlowKernel_init flow_rejects ls n stack_size kwargs =
     then_do (py_gt stack_size (PyInt 1)) (\<lambda>more.
       if more
       then (case stack_size of
               PyInt c \<Rightarrow>
                 (case flow_rejects kwargs of
                    Some e \<Rightarrow> Inl e
                  | None \<Rightarrow>
                      Inr \<lparr>lengthscale = ls,
                           dsf = ModuleList (replicate (nat c) (BlockAutoregressive n kwargs)),
                           num_dims = n, kernel_training = True\<rparr>)
             | PyList _ \<Rightarrow>
                 Inl (TypeError ''list object cannot be interpreted as an integer''))
       else (case flow_rejects kwargs of
               Some e \<Rightarrow> Inl e
             | None \<Rightarrow>
                 Inr \<lparr>lengthscale = ls, dsf = BlockAutoregressive n kwargs,
                      num_dims = n, kernel_training = True\<rparr>))"

text \<open>
  \<^verbatim>\<open>TrapezoidalSpectralAutoregressiveFlowKernel.__init__\<close> hands \<^verbatim>\<open>hidden_factors\<close> to the
  parent as its second positional argument, which is \<^verbatim>\<open>stack_size\<close>.
\<close>

definition Trapezoidal_init ::
  "('kw \<Rightarrow> error option) \<Rightarrow> tensor \<Rightarrow> nat \<Rightarrow> pyarg \<Rightarrow> 'kw \<Rightarrow> error + 'kw kernel" where
  "Trapezoidal_init flow_rejects ls n hidden_factors kwargs =
     SpectralAutoregressiveFlowKernel_init flow_rejects ls n hidden_factors kwargs"

definition default_hidden_factors :: pyarg where
  "default_hidden_factors = PyList [PyInt 8, PyInt 8]"

subsection \<open>Evaluation\<close>

text \<open>
  \<^verbatim>\<open>_create_input_grid\<close>. Besides the two gridded tensors the model returns which of the
  steps of the \<^verbatim>\<open>last_dim_is_batch\<close> branch were carried out.
\<close>

datatype grid_step = Transformed_x1 | Compared | Reused_x1 | Transformed_x2

definition create_input_grid ::
  "tensor \<Rightarrow> tensor \<Rightarrow> bool \<Rightarrow> bool \<Rightarrow> error + ((tensor \<times> tensor) \<times> grid_step list)" where
  "create_input_grid x1 x2 diag last_dim_is_batch =
     then_do
       (if last_dim_is_batch
        then then_do (then_do (transpose_dims (-1) (-2) x1) (unsqueeze (-1))) (\<lambda>x1'.
               if torch_equal x1 x2
               then Inr ((x1', x1'), [Transformed_x1, Compared, Reused_x1])
               else then_do (then_do (transpose_dims (-1) (-2) x2) (unsqueeze (-1))) (\<lambda>x2'.
                      Inr ((x1', x2'), [Transformed_x1, Compared, Transformed_x2])))
        else Inr ((x1, x2), []))
       (\<lambda>((x1', x2'), steps).
          if diag then Inr ((x1', x2'), steps)
          else then_do (unsqueeze (-2) x1') (\<lambda>a.
               then_do (unsqueeze (-3) x2') (\<lambda>b. Inr ((a, b), steps))))"

text \<open>
  The first three lines of both \<^verbatim>\<open>forward\<close> methods, over real entries: both inputs
  are divided by the lengthscale and gridded; \<^verbatim>\<open>last_dim_is_batch\<close> is not passed on and
  so has its default, false.
\<close>

definition forward_grid ::
  "'kw kernel \<Rightarrow> tensor \<Rightarrow> tensor \<Rightarrow> bool \<Rightarrow> error + ((tensor \<times> tensor) \<times> grid_step list)" where
  "forward_grid k x1 x2 diag =
     then_do (div_t x1 (lengthscale k)) (\<lambda>x1'.
     then_do (div_t x2 (lengthscale k)) (\<lambda>x2'.
       create_input_grid x1' x2' diag False))"

text \<open>
  \<^verbatim>\<open>diffs_times_Z\<close>: the samples and the differences are lined up by
  \<^verbatim>\<open>unsqueeze\<close>, multiplied with broadcasting and summed over the last dimension.
\<close>

definition diffs_times_Z :: "tensor \<Rightarrow> tensor \<Rightarrow> bool \<Rightarrow> error + tensor" where
  "diffs_times_Z Z differences diag =
     (if diag
      then then_do (unsqueeze (-2) Z) (\<lambda>a.
           then_do (unsqueeze (-3) differences) (\<lambda>b.
           then_do (mul_t a b) (sum_dim (-1))))
      else then_do (then_do (unsqueeze (-2) Z) (unsqueeze (-2))) (\<lambda>a.
           then_do (unsqueeze (-4) differences) (\<lambda>b.
           then_do (mul_t a b) (sum_dim (-1)))))"

text \<open>
  Lines 109 to 111 and 118 to 120 of the second kernel: the log-densities of the samples,
  less their log-sum-exp, exponentiated and viewed as a column over the sample axis.
\<close>

definition norm_probs :: "(nat \<Rightarrow> real) \<Rightarrow> tensor \<Rightarrow> bool \<Rightarrow> error + tensor" where
  "norm_probs logp samples diag =
     (let log_probs = log_prob logp samples
      in then_do (logsumexp log_probs (- 1)) (\<lambda>lse.
         then_do (sub_t log_probs lse) (\<lambda>norm_log_probs.
           view (if diag then [1000, 1] else [1000, 1, 1]) (exp_t norm_log_probs))))"

text \<open>The tensor \<^verbatim>\<open>values\<close> of lines 113 and 122: every cosine times its weight.\<close>

definition weighted_values ::
  "(nat \<Rightarrow> nat \<Rightarrow> real) \<Rightarrow> (nat \<Rightarrow> real) \<Rightarrow> 'kw kernel \<Rightarrow> tensor \<Rightarrow> tensor \<Rightarrow> bool \<Rightarrow>
   error + tensor" where
  "weighted_values draws logp k x1 x2 diag =
     then_do (forward_grid k x1 x2 diag) (\<lambda>((x1', x2'), _).
     then_do (sub_t x1' x2') (\<lambda>differences.
       let samples = rsample draws 1000 (num_dims k)
       in then_do (diffs_times_Z samples differences diag) (\<lambda>dtz.
          then_do (norm_probs logp samples diag) (\<lambda>w.
            mul_t (cos_t (mul_scalar (2 * pi) dtz)) w))))"

text \<open>\<^verbatim>\<open>TrapezoidalSpectralAutoregressiveFlowKernel.forward\<close>.\<close>

definition trapezoidal_forward ::
  "(nat \<Rightarrow> nat \<Rightarrow> real) \<Rightarrow> (nat \<Rightarrow> real) \<Rightarrow> 'kw kernel \<Rightarrow> tensor \<Rightarrow> tensor \<Rightarrow> bool \<Rightarrow>
   error + tensor" where
  "trapezoidal_forward draws logp k x1 x2 diag =
     then_do (weighted_values draws logp k x1 x2 diag) (mean_dim (if diag then - 2 else - 3))"

text \<open>
  The estimate as the specification words it, for comparison with the method above: a
  self-normalized importance-sampling estimate, the sum over the samples of the
  weighted cosines.
\<close>

definition self_normalized_estimate ::
  "(nat \<Rightarrow> nat \<Rightarrow> real) \<Rightarrow> (nat \<Rightarrow> real) \<Rightarrow> 'kw kernel \<Rightarrow> tensor \<Rightarrow> tensor \<Rightarrow> bool \<Rightarrow>
   error + tensor" where
  "self_normalized_estimate draws logp k x1 x2 diag =
     then_do (weighted_values draws logp k x1 x2 diag) (sum_dim (if diag then - 2 else - 3))"


subsection \<open>The plain kernel over floating-point values\<close>

text \<open>
  Whether the entries of the plain kernel are bounded depends on what floating-point
  arithmetic does at its limits, so \<^verbatim>\<open>SpectralAutoregressiveFlowKernel.forward\<close> is
  modelled over floating-point values: a finite number, one of the two infinities, or
  NaN. \<open>fmax\<close> is the largest finite number of the dtype of the inputs. A finite result
  is the exact real number (rounding is not modelled) unless it lies beyond \<open>fmax\<close>, where
  it becomes an infinity. Zero has no sign here: a division by zero takes the zero as
  positive.
\<close>

datatype fl = Finite real | PosInf | NegInf | NaN

definition to_fl :: "real \<Rightarrow> real \<Rightarrow> fl" where
  "to_fl fmax v = (if fmax < v then PosInf else if v < - fmax then NegInf else Finite v)"

fun is_finite :: "fl \<Rightarrow> bool" where
  "is_finite (Finite _) = True"
| "is_finite _ = False"

fun positive :: "fl \<Rightarrow> bool" where
  "positive (Finite v) = (0 < v)"
| "positive PosInf = True"
| "positive _ = False"

fun fl_neg :: "fl \<Rightarrow> fl" where
  "fl_neg (Finite v) = Finite (- v)"
| "fl_neg PosInf = NegInf"
| "fl_neg NegInf = PosInf"
| "fl_neg NaN = NaN"

fun fl_add :: "real \<Rightarrow> fl \<Rightarrow> fl \<Rightarrow> fl" where
  "fl_add fmax (Finite a) (Finite b) = to_fl fmax (a + b)"
| "fl_add fmax NaN b = NaN"
| "fl_add fmax a NaN = NaN"
| "fl_add fmax PosInf NegInf = NaN"
| "fl_add fmax NegInf PosInf = NaN"
| "fl_add fmax (Finite a) b = b"
| "fl_add fmax a b = a"

definition fl_sub :: "real \<Rightarrow> fl \<Rightarrow> fl \<Rightarrow> fl" where
  "fl_sub fmax a b = fl_add fmax a (fl_neg b)"

fun fl_mul :: "real \<Rightarrow> fl \<Rightarrow> fl \<Rightarrow> fl" where
  "fl_mul fmax (Finite a) (Finite b) = to_fl fmax (a * b)"
| "fl_mul fmax NaN b = NaN"
| "fl_mul fmax a NaN = NaN"
| "fl_mul fmax a b =
     (if a = Finite 0 \<or> b = Finite 0 then NaN
      else if positive a = positive b then PosInf else NegInf)"

fun fl_div :: "real \<Rightarrow> fl \<Rightarrow> fl \<Rightarrow> fl" where
  "fl_div fmax (Finite a) (Finite b) =
     (if b = 0 then (if a = 0 then NaN else if 0 < a then PosInf else NegInf)
      else to_fl fmax (a / b))"
| "fl_div fmax NaN b = NaN"
| "fl_div fmax a NaN = NaN"
| "fl_div fmax (Finite a) b = Finite 0"
| "fl_div fmax a (Finite b) = (if (0 \<le> b) = positive a then PosInf else NegInf)"
| "fl_div fmax a b = NaN"

fun fl_cos :: "fl \<Rightarrow> fl" where
  "fl_cos (Finite v) = Finite (cos v)"
| "fl_cos _ = NaN"

text \<open>Equality of floating-point values: NaN equals nothing, not even itself.\<close>

definition fl_eq :: "fl \<Rightarrow> fl \<Rightarrow> bool" where
  "fl_eq a b \<longleftrightarrow> a \<noteq> NaN \<and> a = b"

text \<open>Sums run through the entries in order; the sum of no entries is 0.\<close>

definition fl_sum :: "real \<Rightarrow> fl list \<Rightarrow> fl" where
  "fl_sum fmax xs = foldl (fl_add fmax) (Finite 0) xs"

definition sum_dim_fl :: "real \<Rightarrow> int \<Rightarrow> fl tensor_of \<Rightarrow> error + fl tensor_of" where
  "sum_dim_fl fmax d t =
     then_do (wrap_dim d (max 1 (length (shape t)))) (\<lambda>p.
       if shape t = [] then Inr t
       else Inr \<lparr>shape = take p (shape t) @ drop (Suc p) (shape t),
                 elem = (\<lambda>idx. fl_sum fmax (along p t idx))\<rparr>)"

text \<open>The mean is the sum divided by the number of entries; over no entries it is NaN.\<close>

definition mean_dim_fl :: "real \<Rightarrow> int \<Rightarrow> fl tensor_of \<Rightarrow> error + fl tensor_of" where
  "mean_dim_fl fmax d t =
     then_do (wrap_dim d (max 1 (length (shape t)))) (\<lambda>p.
       if shape t = [] then Inr t
       else Inr \<lparr>shape = take p (shape t) @ drop (Suc p) (shape t),
                 elem = (\<lambda>idx. fl_div fmax (fl_sum fmax (along p t idx))
                                  (to_fl fmax (real (shape t ! p))))\<rparr>)"

definition torch_equal_fl :: "fl tensor_of \<Rightarrow> fl tensor_of \<Rightarrow> bool" where
  "torch_equal_fl a b \<longleftrightarrow>
     shape a = shape b \<and> list_all (\<lambda>idx. fl_eq (elem a idx) (elem b idx)) (indices (shape a))"

text \<open>\<^verbatim>\<open>_create_input_grid\<close> on tensors of floating-point values.\<close>

definition create_input_grid_fl ::
  "fl tensor_of \<Rightarrow> fl tensor_of \<Rightarrow> bool \<Rightarrow> bool \<Rightarrow>
   error + ((fl tensor_of \<times> fl tensor_of) \<times> grid_step list)" where
  "create_input_grid_fl x1 x2 diag last_dim_is_batch =
     then_do
       (if last_dim_is_batch
        then then_do (then_do (transpose_dims (-1) (-2) x1) (unsqueeze (-1))) (\<lambda>x1'.
               if torch_equal_fl x1 x2
               then Inr ((x1', x1'), [Transformed_x1, Compared, Reused_x1])
               else then_do (then_do (transpose_dims (-1) (-2) x2) (unsqueeze (-1))) (\<lambda>x2'.
                      Inr ((x1', x2'), [Transformed_x1, Compared, Transformed_x2])))
        else Inr ((x1, x2), []))
       (\<lambda>((x1', x2'), steps).
          if diag then Inr ((x1', x2'), steps)
          else then_do (unsqueeze (-2) x1') (\<lambda>a.
               then_do (unsqueeze (-3) x2') (\<lambda>b. Inr ((a, b), steps))))"

text \<open>
  Lines 55 to 57. The lengthscale is a parameter of the kernel and holds finite numbers.
\<close>

definition forward_grid_fl ::
  "real \<Rightarrow> 'kw kernel \<Rightarrow> fl tensor_of \<Rightarrow> fl tensor_of \<Rightarrow> bool \<Rightarrow>
   error + ((fl tensor_of \<times> fl tensor_of) \<times> grid_step list)" where
  "forward_grid_fl fmax k x1 x2 diag =
     then_do (binop (fl_div fmax) x1 (map_t Finite (lengthscale k))) (\<lambda>x1'.
     then_do (binop (fl_div fmax) x2 (map_t Finite (lengthscale k))) (\<lambda>x2'.
       create_input_grid_fl x1' x2' diag False))"

text \<open>Lines 75 and 78, before the multiplication by \<open>2\<pi>\<close>.\<close>

definition diffs_times_Z_fl ::
  "real \<Rightarrow> fl tensor_of \<Rightarrow> fl tensor_of \<Rightarrow> bool \<Rightarrow> error + fl tensor_of" where
  "diffs_times_Z_fl fmax Z differences diag =
     (if diag
      then then_do (unsqueeze (-2) Z) (\<lambda>a.
           then_do (unsqueeze (-3) differences) (\<lambda>b.
           then_do (binop (fl_mul fmax) a b) (sum_dim_fl fmax (-1))))
      else then_do (then_do (unsqueeze (-2) Z) (unsqueeze (-2))) (\<lambda>a.
           then_do (unsqueeze (-4) differences) (\<lambda>b.
           then_do (binop (fl_mul fmax) a b) (sum_dim_fl fmax (-1)))))"

text \<open>The samples of one evaluation: \<open>draws s k\<close> is coordinate \<open>k\<close> of the \<open>s\<close>-th sample.\<close>

definition rsample_fl :: "(nat \<Rightarrow> nat \<Rightarrow> fl) \<Rightarrow> nat \<Rightarrow> nat \<Rightarrow> fl tensor_of" where
  "rsample_fl draws S D =
     \<lparr>shape = [S, D], elem = (\<lambda>idx. case idx of [s, k] \<Rightarrow> draws s k | _ \<Rightarrow> Finite 0)\<rparr>"

text \<open>
  Lines 55 to 75 (or 78) and the multiplication by \<open>2\<pi>\<close> of line 76 (or 79): the phase
  of every sample at every position of the grid.
\<close>

definition phases ::
  "real \<Rightarrow> (nat \<Rightarrow> nat \<Rightarrow> fl) \<Rightarrow> 'kw kernel \<Rightarrow> fl tensor_of \<Rightarrow> fl tensor_of \<Rightarrow> bool \<Rightarrow>
   error + fl tensor_of" where
  "phases fmax draws k x1 x2 diag =
     then_do (forward_grid_fl fmax k x1 x2 diag) (\<lambda>((x1', x2'), _).
     then_do (binop (fl_sub fmax) x1' x2') (\<lambda>differences.
       let Z = (if kernel_training k then rsample_fl draws 2000 (num_dims k)
                else rsample_fl draws 2000 (num_dims k))
       in then_do (diffs_times_Z_fl fmax Z differences diag) (\<lambda>dtz.
            Inr (map_t (\<lambda>v. fl_mul fmax v (Finite (2 * pi))) dtz))))"

text \<open>
  \<^verbatim>\<open>SpectralAutoregressiveFlowKernel.forward\<close>: the cosine of every phase, and the mean
  over the sample axis.
\<close>

definition spectral_forward ::
  "real \<Rightarrow> (nat \<Rightarrow> nat \<Rightarrow> fl) \<Rightarrow> 'kw kernel \<Rightarrow> fl tensor_of \<Rightarrow> fl tensor_of \<Rightarrow> bool \<Rightarrow>
   error + fl tensor_of" where
  "spectral_forward fmax draws k x1 x2 diag =
     then_do (phases fmax draws k x1 x2 diag) (\<lambda>ph.
       mean_dim_fl fmax (if diag then - 2 else - 3) (map_t fl_cos ph))"

text \<open>
  The phases behind the entry at \<open>idx\<close> of the result: those along the sample axis, which
  is the last but one in diag mode and the last but two otherwise.
\<close>

definition phases_of_entry :: "fl tensor_of \<Rightarrow> bool \<Rightarrow> nat list \<Rightarrow> fl list" where
  "phases_of_entry ph diag idx =
     along (length (shape ph) - (if diag then 2 else 3)) ph idx"

subsection \<open>Example inputs\<close>

text \<open>
  A one-dimensional kernel with lengthscale 1, the single point 0 as a point set, and an
  evaluation in which every sample is the frequency 0 and has log-density 0.
\<close>

definition example_kernel :: "unit kernel" where
  "example_kernel =
     \<lparr>lengthscale = \<lparr>shape = [1, 1], elem = (\<lambda>idx. 1)\<rparr>,
      dsf = BlockAutoregressive 1 (), num_dims = 1, kernel_training = False\<rparr>"

definition example_input :: tensor where
  "example_input = \<lparr>shape = [1, 1], elem = (\<lambda>idx. 0)\<rparr>"

definition example_draws :: "nat \<Rightarrow> nat \<Rightarrow> real" where
  "example_draws s k = 0"

definition example_logp :: "nat \<Rightarrow> real" where
  "example_logp s = 0"

text \<open>
  For the plain kernel: single precision, the point 0, the points \<open>3e38\<close> and \<open>-3e38\<close>, and
  an evaluation in which every sample is the frequency 1.
\<close>

definition float32_max :: real where
  "float32_max = 340282346638528859811704183484516925440"

definition example_zero :: "fl tensor_of" where
  "example_zero = \<lparr>shape = [1, 1], elem = (\<lambda>idx. Finite 0)\<rparr>"

definition example_high :: "fl tensor_of" where
  "example_high = \<lparr>shape = [1, 1], elem = (\<lambda>idx. Finite (3 * 10 ^ 38))\<rparr>"

definition example_low :: "fl tensor_of" where
  "example_low = \<lparr>shape = [1, 1], elem = (\<lambda>idx. Finite (- (3 * 10 ^ 38)))\<rparr>"

definition example_samples :: "nat \<Rightarrow> nat \<Rightarrow> fl" where
  "example_samples s k = Finite 1"

section \<open>Properties of the variational strategy\<close>

lemma then_do_Inr [simp]: "then_do (Inr v) f = f v"
  by (simp add: then_do_def)

lemma then_do_Inl [simp]: "then_do (Inl e) f = Inl e"
  by (simp add: then_do_def)

lemmas strategy_defs =
  call_def get_q_f_def maybe_initialize_def delete_cached_items_def train_def
  prior_distribution_def variational_distribution_def cholesky_factor_def kl_divergence_def
  cached_def cache_lookup_def add_to_cache_def log_event_def
  prepared_def preparation_def retrieved_q_def expanded_points_def expanded_x_def
  new_events_def used_prior_def initializations_def

lemmas example_defs =
  example_env_def example_failing_env_def example_mismatch_def
  example_strategy_def init_strategy_def example_points_def example_x_def
  example_object_def expand_def expandable_def last2_def bidx_def invalid_distribution_def
  example_settled_strategy_def example_cached_strategy_def example_warm_strategy_def
  lifetime_def

text \<open>A non-prior invocation, in terms of the prepared state.\<close>

lemma call_nonprior:
  "call env x False r s =
     (case preparation env s of
        Inl e \<Rightarrow> (Inl e, prepared env s)
      | Inr _ \<Rightarrow>
          (case expanded_points env s of
             Inl e \<Rightarrow> (Inl e, prepared env s)
           | Inr points \<Rightarrow>
               (case expanded_x env x s of
                  Inl e \<Rightarrow> (Inl e, prepared env s)
                | Inr x' \<Rightarrow>
                    (case variational_distribution env (prepared env s) of
                       (Inl e, s3) \<Rightarrow> (Inl e, s3)
                     | (Inr q, s3) \<Rightarrow> get_q_f env x' points q r s3))))"
proof -
  obtain u s2 where m: "maybe_initialize env (delete_cached_items s) = (u, s2)"
    by (cases "maybe_initialize env (delete_cached_items s)")
  have p: "prepared env s = s2" "preparation env s = u"
    by (simp_all add: prepared_def preparation_def m)
  show ?thesis
    unfolding expanded_points_def expanded_x_def p
    by (cases u) (simp_all add: call_def m Let_def)
qed

lemma variational_distribution_result:
  "variational_distribution env s =
     (case cache_lookup ''variational_distribution_memo'' s of
        Some v \<Rightarrow> (Inr v, s)
      | None \<Rightarrow>
          (case generate env (generator s) of
             Inl e \<Rightarrow> (Inl e, log_event Variational_generated s)
           | Inr v \<Rightarrow> (Inr v, add_to_cache ''variational_distribution_memo'' v
                               (log_event Variational_generated s))))"
  by (simp add: variational_distribution_def cached_def split: option.splits sum.splits)

lemma prior_distribution_result:
  "prior_distribution env s =
     (case cache_lookup ''prior_distribution_memo'' s of
        Some v \<Rightarrow> (Inr v, s)
      | None \<Rightarrow>
          (case prior_impl env (inducing_points s) of
             Inl e \<Rightarrow> (Inl e, log_event Prior_computed s)
           | Inr v \<Rightarrow> (Inr v, add_to_cache ''prior_distribution_memo'' v
                               (log_event Prior_computed s))))"
  by (simp add: prior_distribution_def cached_def split: option.splits sum.splits)

lemma cache_lookup_add [simp]:
  "cache_lookup n (add_to_cache n' v s) = (if n = n' then Some v else cache_lookup n s)"
  by (simp add: cache_lookup_def add_to_cache_def update_conv' split: option.splits)

lemma retrieved_q_Inr:
  assumes "retrieved_q env s = Inr q"
  obtains s3 where "preparation env s = Inr ()"
    and "variational_distribution env (prepared env s) = (Inr q, s3)"
  using assms
  by (cases "variational_distribution env (prepared env s)")
    (auto simp: retrieved_q_def split: sum.splits)

text \<open>
  C7. When \<open>q(u)\<close> is a \<open>Delta\<close> with location \<open>m\<close>, the marginalisation is called once,
  with \<open>m\<close> as the inducing values and no covariance, and what the invocation returns
  under \<open>return_map_dist\<close> is the pair of that one predictive with itself.
\<close>

theorem delta_map_predictive_is_predictive:
  assumes q: "retrieved_q env s = Inr (Delta m)"
    and ip: "expanded_points env s = Inr points"
    and x: "expanded_x env x s = Inr x'"
  shows "fst (call env x False return_map_dist s) =
           (case forward_impl env x' points m None of
              Inl e \<Rightarrow> Inl e
            | Inr pred \<Rightarrow> Inr (if return_map_dist then Tuple [pred, pred] else pred))
       \<and> new_events (snd (variational_distribution env (prepared env s)))
            (snd (call env x False return_map_dist s)) = [Forward_called x' points m None]"
proof -
  from q obtain s3 where p: "preparation env s = Inr ()"
    and v: "variational_distribution env (prepared env s) = (Inr (Delta m), s3)"
    by (rule retrieved_q_Inr)
  show ?thesis
    by (simp add: call_nonprior p ip x v get_q_f_def new_events_def log_event_def split: sum.splits)
qed

theorem delta_map_predictive_is_predictive_witness:
  "fst (call (example_env (Delta example_x)) example_x False True example_strategy) =
     Inr (Tuple [MultivariateNormal example_x example_x, MultivariateNormal example_x example_x])"
proof -
  have q: "retrieved_q (example_env (Delta example_x)) example_strategy = Inr (Delta example_x)"
    by (simp add: strategy_defs example_defs)
  have ip: "expanded_points (example_env (Delta example_x)) example_strategy = Inr example_points"
    by (simp add: strategy_defs example_defs)
  have x: "expanded_x (example_env (Delta example_x)) example_x example_strategy = Inr example_x"
    by (simp add: strategy_defs example_defs)
  show ?thesis
    using delta_map_predictive_is_predictive [OF q ip x, of True] by (simp add: example_env_def)
qed

text \<open>
  C2, as stated, fails: an instance in training mode whose variational distribution is
  of another class raises when it is invoked, and its cache, which held the prior, the
  variational distribution and a Cholesky factor before, holds only a newly written
  variational distribution afterwards.
\<close>

theorem failed_call_writes_cache_counterexample:
  "retrieved_q (example_env example_object) (example_warm_strategy example_object) =
     Inr example_object
   \<and> \<not> is_MultivariateNormal example_object \<and> \<not> is_Delta example_object
   \<and> fst (call (example_env example_object) example_x False False
            (example_warm_strategy example_object)) = Inl (invalid_distribution example_object)
   \<and> memoize_cache (example_warm_strategy example_object) =
       Some [(''prior_distribution_memo'', MultivariateNormal example_points example_points),
             (''variational_distribution_memo'', example_object),
             (''cholesky_factor'', Tensor example_points)]
   \<and> memoize_cache (snd (call (example_env example_object) example_x False False
            (example_warm_strategy example_object))) =
       Some [(''variational_distribution_memo'', example_object)]"
  by (simp add: strategy_defs example_defs)

text \<open>
  C2, amended. When the retrieved \<open>q(u)\<close> is neither a \<open>MultivariateNormal\<close> nor a
  \<open>Delta\<close>, the invocation raises the RuntimeError whose message names the type of
  \<open>q(u)\<close> and returns no predictive distribution. After the failed invocation the cache
  holds \<open>q(u)\<close> under \<open>variational_distribution_memo\<close>; the cache is the same as before
  when the instance is in evaluation mode, is initialised and had that entry already.
\<close>

theorem invalid_distribution_raises:
  assumes q: "retrieved_q env s = Inr q"
    and other: "\<not> is_MultivariateNormal q" "\<not> is_Delta q"
    and ip: "expanded_points env s = Inr points"
    and x: "expanded_x env x s = Inr x'"
  shows "fst (call env x False return_map_dist s) = Inl (invalid_distribution q)
     \<and> cache_lookup ''variational_distribution_memo''
         (snd (call env x False return_map_dist s)) = Some q
     \<and> (\<not> training s \<and> variational_params_initialized s \<noteq> 0
          \<and> cache_lookup ''variational_distribution_memo'' s \<noteq> None
        \<longrightarrow> memoize_cache (snd (call env x False return_map_dist s)) = memoize_cache s)"
proof -
  from q obtain s3 where p: "preparation env s = Inr ()"
    and v: "variational_distribution env (prepared env s) = (Inr q, s3)"
    by (rule retrieved_q_Inr)
  have g: "get_q_f env x' points q return_map_dist s3 = (Inl (invalid_distribution q), s3)"
    using other by (cases q) (simp_all add: get_q_f_def)
  have c: "call env x False return_map_dist s = (Inl (invalid_distribution q), s3)"
    by (simp add: call_nonprior p ip x v g)
  have l: "cache_lookup ''variational_distribution_memo'' s3 = Some q"
    using v by (auto simp: variational_distribution_result split: option.splits sum.splits)
  have u: "memoize_cache s3 = memoize_cache s"
    if "\<not> training s" "variational_params_initialized s \<noteq> 0"
       "cache_lookup ''variational_distribution_memo'' s \<noteq> None"
  proof -
    from that have "prepared env s = s"
      by (simp add: prepared_def delete_cached_items_def maybe_initialize_def)
    with v that show ?thesis
      by (auto simp: variational_distribution_result split: option.splits)
  qed
  show ?thesis
    using c l u by simp
qed

theorem invalid_distribution_raises_witness:
  "\<not> training (example_settled_strategy example_object)
   \<and> variational_params_initialized (example_settled_strategy example_object) \<noteq> 0
   \<and> cache_lookup ''variational_distribution_memo'' (example_settled_strategy example_object)
       \<noteq> None
   \<and> fst (call (example_env example_object) example_x False True
            (example_settled_strategy example_object)) = Inl (invalid_distribution example_object)
   \<and> memoize_cache (snd (call (example_env example_object) example_x False True
            (example_settled_strategy example_object))) =
       memoize_cache (example_settled_strategy example_object)"
proof -
  have q: "retrieved_q (example_env example_object) (example_settled_strategy example_object) =
      Inr example_object"
    by (simp add: strategy_defs example_defs)
  have o: "\<not> is_MultivariateNormal example_object" "\<not> is_Delta example_object"
    by (simp_all add: example_object_def)
  have ip: "expanded_points (example_env example_object)
      (example_settled_strategy example_object) = Inr example_points"
    by (simp add: strategy_defs example_defs)
  have x: "expanded_x (example_env example_object) example_x
      (example_settled_strategy example_object) = Inr example_x"
    by (simp add: strategy_defs example_defs)
  have h: "\<not> training (example_settled_strategy example_object)
     \<and> variational_params_initialized (example_settled_strategy example_object) \<noteq> 0
     \<and> cache_lookup ''variational_distribution_memo''
         (example_settled_strategy example_object) \<noteq> None"
    by (simp add: strategy_defs example_defs)
  show ?thesis
    using invalid_distribution_raises [OF q o ip x, of True] h by simp
qed

subsection \<open>What each member leaves alone, and what it logs\<close>

lemma frame_log [simp]:
  "variational_params_initialized (log_event e s) = variational_params_initialized s"
  "memoize_cache (log_event e s) = memoize_cache s"
  "training (log_event e s) = training s"
  "generator (log_event e s) = generator s"
  "inducing_points (log_event e s) = inducing_points s"
  "events (log_event e s) = events s @ [e]"
  by (simp_all add: log_event_def)

lemma frame_add [simp]:
  "variational_params_initialized (add_to_cache n v s) = variational_params_initialized s"
  "events (add_to_cache n v s) = events s"
  "training (add_to_cache n v s) = training s"
  "generator (add_to_cache n v s) = generator s"
  "inducing_points (add_to_cache n v s) = inducing_points s"
  by (simp_all add: add_to_cache_def)

lemma frame_delete [simp]:
  "variational_params_initialized (delete_cached_items s) = variational_params_initialized s"
  "generator (delete_cached_items s) = generator s"
  "inducing_points (delete_cached_items s) = inducing_points s"
  by (simp_all add: delete_cached_items_def)

lemma frame_train [simp]:
  "variational_params_initialized (train mode s) = variational_params_initialized s"
  "generator (train mode s) = generator s"
  "inducing_points (train mode s) = inducing_points s"
  by (simp_all add: train_def Let_def)

lemma frame_prior [simp]:
  "variational_params_initialized (snd (prior_distribution env s)) =
     variational_params_initialized s"
  "generator (snd (prior_distribution env s)) = generator s"
  "inducing_points (snd (prior_distribution env s)) = inducing_points s"
  by (simp_all add: prior_distribution_result split: option.splits sum.splits)

lemma frame_variational [simp]:
  "variational_params_initialized (snd (variational_distribution env s)) =
     variational_params_initialized s"
  "generator (snd (variational_distribution env s)) = generator s"
  "inducing_points (snd (variational_distribution env s)) = inducing_points s"
  by (simp_all add: variational_distribution_result split: option.splits sum.splits)

lemma frame_cholesky [simp]:
  "variational_params_initialized (snd (cholesky_factor env m s)) =
     variational_params_initialized s"
  "generator (snd (cholesky_factor env m s)) = generator s"
  "inducing_points (snd (cholesky_factor env m s)) = inducing_points s"
  by (simp_all add: cholesky_factor_def cached_def split: option.splits sum.splits)

lemma frame_get_q_f [simp]:
  "variational_params_initialized (snd (get_q_f env x p q r s)) =
     variational_params_initialized s"
  "generator (snd (get_q_f env x p q r s)) = generator s"
  "inducing_points (snd (get_q_f env x p q r s)) = inducing_points s"
  by (simp_all add: get_q_f_def Let_def split: pyobj.splits sum.splits prod.splits)

lemma kl_divergence_state:
  "snd (kl_divergence env s) =
     snd (prior_distribution env (snd (variational_distribution env s)))
   \<or> snd (kl_divergence env s) = snd (variational_distribution env s)"
  by (cases "variational_distribution env s";
      cases "prior_distribution env (snd (variational_distribution env s))")
    (auto simp: kl_divergence_def split: sum.splits)

lemma frame_kl [simp]:
  "variational_params_initialized (snd (kl_divergence env s)) = variational_params_initialized s"
  "generator (snd (kl_divergence env s)) = generator s"
  "inducing_points (snd (kl_divergence env s)) = inducing_points s"
  using kl_divergence_state [of env s] by auto

lemma new_events_append: "events t = events s @ es \<Longrightarrow> new_events s t = es"
  by (simp add: new_events_def)

lemma events_delete:
  "events (delete_cached_items s) =
     events s @ (if training s \<and> memoize_cache s \<noteq> None then [Cache_reset] else [])"
  by (simp add: delete_cached_items_def)

lemma events_prior:
  "events (snd (prior_distribution env s)) =
     events s @ (if cache_lookup ''prior_distribution_memo'' s = None then [Prior_computed] else [])"
  by (auto simp: prior_distribution_result split: option.splits sum.splits)

lemma events_variational:
  "events (snd (variational_distribution env s)) =
     events s @
     (if cache_lookup ''variational_distribution_memo'' s = None then [Variational_generated]
      else [])"
  by (auto simp: variational_distribution_result split: option.splits sum.splits)

lemma events_cholesky:
  "events (snd (cholesky_factor env m s)) =
     events s @ (if cache_lookup ''cholesky_factor'' s = None then [Cholesky_computed] else [])"
  by (auto simp: cholesky_factor_def cached_def split: option.splits sum.splits)

lemma events_train:
  "events (train mode s) =
     events s @
     (if ((training s \<and> \<not> mode) \<or> mode) \<and> memoize_cache s \<noteq> None then [Cache_deleted] else [])"
  by (simp add: train_def Let_def)

lemma events_get_q_f:
  "events (snd (get_q_f env x p q r s)) =
     events s @
     (case q of MultivariateNormal m c \<Rightarrow> [Forward_called x p m (Some c)]
      | Delta m \<Rightarrow> [Forward_called x p m None] | _ \<Rightarrow> [])"
  by (simp add: get_q_f_def Let_def split: pyobj.splits sum.splits prod.splits)

text \<open>The initialisation step, case by case.\<close>

lemma maybe_initialize_cases:
  "maybe_initialize env s =
     (if variational_params_initialized s = 0
      then (case fst (prior_distribution env s) of
              Inl e \<Rightarrow> (Inl e, snd (prior_distribution env s))
            | Inr p \<Rightarrow>
                (case initialize_variational_distribution env p (generator s) of
                   (Inl e, g) \<Rightarrow>
                     (Inl e, (log_event (Variational_initialized p) (snd (prior_distribution env s)))
                               \<lparr>generator := g\<rparr>)
                 | (Inr _, g) \<Rightarrow>
                     (Inr (),
                      (log_event (Variational_initialized p) (snd (prior_distribution env s)))
                        \<lparr>generator := g, variational_params_initialized := 1\<rparr>)))
      else (Inr (), s))"
proof -
  obtain a b where p: "prior_distribution env s = (a, b)"
    by (cases "prior_distribution env s")
  have g: "generator b = generator s"
    using frame_prior(2) [of env s] p by simp
  show ?thesis
    by (simp add: maybe_initialize_def p g split: sum.splits prod.splits)
qed

lemma preparation_cases:
  "preparation env s =
     (if variational_params_initialized s = 0
      then (case used_prior env s of
              Inl e \<Rightarrow> Inl e
            | Inr p \<Rightarrow>
                (case fst (initialize_variational_distribution env p (generator s)) of
                   Inl e \<Rightarrow> Inl e | Inr _ \<Rightarrow> Inr ()))
      else Inr ())"
  by (auto simp: preparation_def used_prior_def maybe_initialize_cases
      split: sum.splits prod.splits)

lemma events_prepared: "events (prepared env s) = events s @ preparation_events env s"
  by (auto simp: prepared_def maybe_initialize_cases events_prior events_delete used_prior_def
      preparation_events_def split: sum.splits prod.splits)

lemma flag_prepared:
  "variational_params_initialized (prepared env s) =
     (if variational_params_initialized s = 0 \<and> preparation env s = Inr () then 1
      else variational_params_initialized s)"
  by (auto simp: prepared_def preparation_def maybe_initialize_cases
      split: sum.splits prod.splits)

lemma generator_prepared:
  "generator (prepared env s) =
     (if variational_params_initialized s = 0
      then (case used_prior env s of
              Inl e \<Rightarrow> generator s
            | Inr p \<Rightarrow> snd (initialize_variational_distribution env p (generator s)))
      else generator s)"
  by (auto simp: prepared_def used_prior_def maybe_initialize_cases
      split: sum.splits prod.splits)

lemma inducing_points_prepared [simp]: "inducing_points (prepared env s) = inducing_points s"
  by (auto simp: prepared_def maybe_initialize_cases split: sum.splits prod.splits)

text \<open>
  After the preparation a non-prior invocation logs only the retrieval and the
  marginalisation, in this order, and touches neither the flag nor the generator.
\<close>

lemma call_tail:
  "\<exists>es. events (snd (call env x False r s)) = events (prepared env s) @ es
      \<and> (\<forall>e\<in>set es. phase e = 2 \<or> phase e = 3) \<and> sorted (map phase es)
      \<and> variational_params_initialized (snd (call env x False r s)) =
          variational_params_initialized (prepared env s)
      \<and> generator (snd (call env x False r s)) = generator (prepared env s)
      \<and> inducing_points (snd (call env x False r s)) = inducing_points s"
proof -
  obtain a s3 where v: "variational_distribution env (prepared env s) = (a, s3)"
    by (cases "variational_distribution env (prepared env s)")
  then have e3: "events s3 = events (prepared env s) @
     (if cache_lookup ''variational_distribution_memo'' (prepared env s) = None
      then [Variational_generated] else [])"
    using events_variational [of env "prepared env s"] by simp
  have f3: "variational_params_initialized s3 = variational_params_initialized (prepared env s)"
    "generator s3 = generator (prepared env s)" "inducing_points s3 = inducing_points s"
    using v frame_variational [of env "prepared env s"] by simp_all
  show ?thesis
    by (auto simp: call_nonprior v e3 f3 events_get_q_f split: sum.splits pyobj.splits)
qed

lemma call_new_events:
  "\<exists>es. new_events s (snd (call env x False r s)) = preparation_events env s @ es
      \<and> (\<forall>e\<in>set es. phase e = 2 \<or> phase e = 3) \<and> sorted (map phase es)"
proof -
  obtain es where es: "events (snd (call env x False r s)) = events (prepared env s) @ es"
    "\<forall>e\<in>set es. phase e = 2 \<or> phase e = 3" "sorted (map phase es)"
    using call_tail by blast
  have "new_events s (snd (call env x False r s)) = preparation_events env s @ es"
    by (rule new_events_append) (simp add: es(1) events_prepared)
  with es(2,3) show ?thesis
    by blast
qed

lemma prior_survives_prepared:
  "variational_params_initialized s = 0 \<Longrightarrow> used_prior env s = Inr p \<Longrightarrow>
     cache_lookup ''prior_distribution_memo'' (prepared env s) = Some p"
  by (auto simp: prepared_def used_prior_def maybe_initialize_cases prior_distribution_result
      cache_lookup_def add_to_cache_def log_event_def update_conv'
      split: option.splits sum.splits prod.splits)

lemma lookup_after_variational:
  "n \<noteq> ''variational_distribution_memo'' \<Longrightarrow>
   cache_lookup n (snd (variational_distribution env s)) = cache_lookup n s"
  by (auto simp: variational_distribution_result cache_lookup_def add_to_cache_def
      log_event_def update_conv' split: option.splits sum.splits)

lemma lookup_after_get_q_f [simp]:
  "cache_lookup n (snd (get_q_f env x p q r s)) = cache_lookup n s"
  by (simp add: get_q_f_def cache_lookup_def Let_def split: pyobj.splits sum.splits prod.splits)

lemma lookup_after_call:
  assumes n: "n \<noteq> ''variational_distribution_memo''"
  shows "cache_lookup n (snd (call env x False r s)) = cache_lookup n (prepared env s)"
proof -
  obtain a s3 where v: "variational_distribution env (prepared env s) = (a, s3)"
    by (cases "variational_distribution env (prepared env s)")
  then have "cache_lookup n s3 = cache_lookup n (prepared env s)"
    using lookup_after_variational [OF n, of env "prepared env s"] by simp
  then show ?thesis
    by (simp add: call_nonprior v split: sum.splits)
qed

subsection \<open>Cache invalidation\<close>

lemma train_clears:
  "(training s \<and> \<not> mode) \<or> mode \<Longrightarrow>
     memoize_cache (train mode s) = None \<and> training (train mode s) = mode"
  by (auto simp: train_def Let_def)

lemma delete_cached_items_forgets:
  "training s \<Longrightarrow>
     delete_cached_items s =
     delete_cached_items (s\<lparr>memoize_cache := map_option (\<lambda>c. []) (memoize_cache s)\<rparr>)"
  by (cases "memoize_cache s") (simp_all add: delete_cached_items_def log_event_def)

text \<open>
  C3, as stated, fails in its last part: an invocation with \<open>prior\<close> set returns at once
  (lines 112 and 113) and leaves the cache of an instance in training mode as it was.
\<close>

theorem prior_call_keeps_cache_counterexample:
  "training example_cached_strategy
   \<and> memoize_cache example_cached_strategy =
       Some [(''prior_distribution_memo'', MultivariateNormal example_points example_points)]
   \<and> memoize_cache
       (snd (call (example_env (Delta example_x)) example_x True False example_cached_strategy)) =
       Some [(''prior_distribution_memo'', MultivariateNormal example_points example_points)]"
  by (simp add: strategy_defs example_defs)

text \<open>
  C3, amended. A call of \<open>train\<close> that changes the mode or asks for training mode leaves
  the instance without any cache entry, so that the prior, the variational distribution
  and the Cholesky factor are computed anew at their next access. Every invocation
  without \<open>prior\<close> made in training mode empties the cache before it goes on: it behaves
  as it would on an emptied cache.
\<close>

theorem mode_change_clears_cache:
  "((training s \<and> \<not> mode) \<or> mode \<longrightarrow>
      memoize_cache (train mode s) = None \<and> training (train mode s) = mode
      \<and> (\<forall>name. cache_lookup name (train mode s) = None)
      \<and> fst (prior_distribution env (train mode s)) = prior_impl env (inducing_points s)
      \<and> new_events (train mode s) (snd (prior_distribution env (train mode s))) =
          [Prior_computed]
      \<and> fst (variational_distribution env (train mode s)) = generate env (generator s)
      \<and> new_events (train mode s) (snd (variational_distribution env (train mode s))) =
          [Variational_generated]
      \<and> new_events (train mode s) (snd (cholesky_factor env m (train mode s))) =
          [Cholesky_computed])
   \<and> (training s \<longrightarrow>
        (\<forall>name. cache_lookup name (delete_cached_items s) = None)
        \<and> call env x False r s =
            call env x False r (s\<lparr>memoize_cache := map_option (\<lambda>c. []) (memoize_cache s)\<rparr>))"
proof (intro conjI impI allI)
  assume a: "(training s \<and> \<not> mode) \<or> mode"
  then show c: "memoize_cache (train mode s) = None" and "training (train mode s) = mode"
    using train_clears by blast+
  show "cache_lookup name (train mode s) = None" for name
    by (simp add: cache_lookup_def c)
  then have l: "cache_lookup name (train mode s) = None" for name .
  show "fst (prior_distribution env (train mode s)) = prior_impl env (inducing_points s)"
    by (simp add: prior_distribution_result l split: sum.splits)
  show "new_events (train mode s) (snd (prior_distribution env (train mode s))) =
      [Prior_computed]"
    by (rule new_events_append) (simp add: events_prior l)
  show "fst (variational_distribution env (train mode s)) = generate env (generator s)"
    by (simp add: variational_distribution_result l split: sum.splits)
  show "new_events (train mode s) (snd (variational_distribution env (train mode s))) =
      [Variational_generated]"
    by (rule new_events_append) (simp add: events_variational l)
  show "new_events (train mode s) (snd (cholesky_factor env m (train mode s))) =
      [Cholesky_computed]"
    by (rule new_events_append) (simp add: events_cholesky l)
next
  assume t: "training s"
  show "cache_lookup name (delete_cached_items s) = None" for name
    using t by (simp add: delete_cached_items_def cache_lookup_def split: option.splits)
  show "call env x False r s =
      call env x False r (s\<lparr>memoize_cache := map_option (\<lambda>c. []) (memoize_cache s)\<rparr>)"
    using delete_cached_items_forgets [OF t] by (simp add: call_def)
qed

theorem mode_change_clears_cache_witness:
  "training example_cached_strategy
   \<and> cache_lookup ''prior_distribution_memo'' example_cached_strategy \<noteq> None
   \<and> memoize_cache (train False example_cached_strategy) = None
   \<and> cache_lookup ''prior_distribution_memo'' (train False example_cached_strategy) = None
   \<and> new_events (train False example_cached_strategy)
       (snd (prior_distribution (example_env (Delta example_x))
          (train False example_cached_strategy))) = [Prior_computed]
   \<and> cache_lookup ''prior_distribution_memo'' (delete_cached_items example_cached_strategy) = None"
proof -
  have h: "training example_cached_strategy
     \<and> cache_lookup ''prior_distribution_memo'' example_cached_strategy \<noteq> None"
    by (simp add: strategy_defs example_defs)
  then have "(training example_cached_strategy \<and> \<not> False) \<or> False"
    by simp
  with h show ?thesis
    using mode_change_clears_cache
      [of example_cached_strategy False "example_env (Delta example_x)" example_x example_x False]
    by simp
qed

subsection \<open>Initialisation\<close>

lemma initializations_append:
  "events t = events s @ es \<Longrightarrow>
     initializations t = initializations s + length (filter is_initialization es)"
  by (simp add: initializations_def)

lemma later_phases_no_initialization:
  "\<forall>e\<in>set es. phase e = 2 \<or> phase e = 3 \<Longrightarrow> filter is_initialization es = []"
proof (induction es)
  case Nil
  show ?case by simp
next
  case (Cons e es)
  then show ?case by (cases e) simp_all
qed

lemma preparation_initializations:
  "filter is_initialization (preparation_events env s) =
     (if variational_params_initialized s = 0
      then (case used_prior env s of Inl e \<Rightarrow> [] | Inr p \<Rightarrow> [Variational_initialized p])
      else [])"
  by (simp add: preparation_events_def split: sum.splits)

lemma initializations_of_call:
  "filter is_initialization (new_events s (snd (call env x False r s))) =
     (if variational_params_initialized s = 0
      then (case used_prior env s of Inl e \<Rightarrow> [] | Inr p \<Rightarrow> [Variational_initialized p])
      else [])"
proof -
  obtain es where es: "new_events s (snd (call env x False r s)) = preparation_events env s @ es"
    "\<forall>e\<in>set es. phase e = 2 \<or> phase e = 3"
    using call_new_events by blast
  show ?thesis
    by (simp add: es(1) later_phases_no_initialization [OF es(2)] preparation_initializations)
qed

lemma initializations_after_call:
  "initializations (snd (call env x False r s)) =
     initializations s +
     (if variational_params_initialized s = 0
      then (case used_prior env s of Inl e \<Rightarrow> 0 | Inr p \<Rightarrow> 1) else 0)"
proof -
  obtain es where es: "events (snd (call env x False r s)) = events (prepared env s) @ es"
    "\<forall>e\<in>set es. phase e = 2 \<or> phase e = 3"
    using call_tail by blast
  have "events (snd (call env x False r s)) = events s @ (preparation_events env s @ es)"
    by (simp add: es(1) events_prepared)
  from initializations_append [OF this] show ?thesis
    by (simp add: later_phases_no_initialization [OF es(2)] preparation_initializations
        split: sum.splits)
qed

text \<open>Uses other than an invocation without \<open>prior\<close> never initialise.\<close>

lemma other_use_frame:
  assumes "\<not> is_nonprior_call u"
  shows "variational_params_initialized (use_step env s u) = variational_params_initialized s"
    and "generator (use_step env s u) = generator s"
    and "inducing_points (use_step env s u) = inducing_points s"
    and "initializations (use_step env s u) = initializations s"
proof -
  show "variational_params_initialized (use_step env s u) = variational_params_initialized s"
    "generator (use_step env s u) = generator s"
    "inducing_points (use_step env s u) = inducing_points s"
    using assms by (cases u; simp add: call_def)+
  show "initializations (use_step env s u) = initializations s"
  proof (cases u)
    case (Call x prior r)
    with assms show ?thesis
      by (simp add: call_def initializations_def)
  next
    case (Train mode)
    then show ?thesis
      using initializations_append [OF events_train] by simp
  next
    case Prior_distribution
    then show ?thesis
      using initializations_append [OF events_prior] by simp
  next
    case Variational_distribution
    then show ?thesis
      using initializations_append [OF events_variational] by simp
  next
    case (Cholesky_factor m)
    then show ?thesis
      using initializations_append [OF events_cholesky] by simp
  next
    case Kl_divergence
    have v: "initializations (snd (variational_distribution env s)) = initializations s"
      using initializations_append [OF events_variational, of env s] by simp
    have "initializations (snd (prior_distribution env (snd (variational_distribution env s)))) =
        initializations s"
      using initializations_append [OF events_prior, of env "snd (variational_distribution env s)"]
        v by simp
    with v Kl_divergence kl_divergence_state [of env s] show ?thesis
      by auto
  qed
qed

text \<open>Once the flag is set, nothing initialises again.\<close>

lemma settled_use_frame:
  assumes f: "variational_params_initialized s \<noteq> 0"
  shows "variational_params_initialized (use_step env s u) = variational_params_initialized s
     \<and> generator (use_step env s u) = generator s
     \<and> initializations (use_step env s u) = initializations s"
proof (cases "is_nonprior_call u")
  case False
  then show ?thesis
    by (simp add: other_use_frame)
next
  case True
  then obtain x r where u: "u = Call x False r"
    by (cases u) auto
  obtain es where es:
    "variational_params_initialized (snd (call env x False r s)) =
       variational_params_initialized (prepared env s)"
    "generator (snd (call env x False r s)) = generator (prepared env s)"
    using call_tail by blast
  from f show ?thesis
    by (simp add: u es flag_prepared generator_prepared initializations_after_call)
qed

text \<open>The cached prior of an uninitialised instance stays the prior of its inducing points.\<close>

lemma lookup_after_cholesky:
  "n \<noteq> ''cholesky_factor'' \<Longrightarrow>
   cache_lookup n (snd (cholesky_factor env m s)) = cache_lookup n s"
  by (auto simp: cholesky_factor_def cached_def cache_lookup_def add_to_cache_def
      log_event_def update_conv' split: option.splits sum.splits)

lemma lookup_prior_after_prior:
  assumes "prior_impl env (inducing_points s) = Inr p"
    and "cache_lookup ''prior_distribution_memo'' s = None
       \<or> cache_lookup ''prior_distribution_memo'' s = Some p"
  shows "cache_lookup ''prior_distribution_memo'' (snd (prior_distribution env s)) = Some p"
    and "fst (prior_distribution env s) = Inr p"
  using assms by (auto simp: prior_distribution_result split: option.splits)

lemma before_initialization_other_use:
  assumes b: "before_initialization gen points p s"
    and p: "prior_impl env points = Inr p"
    and u: "\<not> is_nonprior_call u"
  shows "before_initialization gen points p (use_step env s u)"
proof -
  from b have c: "cache_lookup ''prior_distribution_memo'' s = None
      \<or> cache_lookup ''prior_distribution_memo'' s = Some p"
    and i: "inducing_points s = points"
    by (simp_all add: before_initialization_def)
  have "cache_lookup ''prior_distribution_memo'' (use_step env s u) = None
      \<or> cache_lookup ''prior_distribution_memo'' (use_step env s u) = Some p"
  proof (cases u)
    case (Call x prior r)
    with u c show ?thesis
      by (simp add: call_def cache_lookup_def)
  next
    case (Train mode)
    with c show ?thesis
      by (auto simp: train_def Let_def cache_lookup_def)
  next
    case Prior_distribution
    with lookup_prior_after_prior(1) [of env s p] p i c show ?thesis
      by simp
  next
    case Variational_distribution
    with c show ?thesis
      by (simp add: lookup_after_variational)
  next
    case (Cholesky_factor m)
    with c show ?thesis
      by (simp add: lookup_after_cholesky)
  next
    case Kl_divergence
    let ?s1 = "snd (variational_distribution env s)"
    have c1: "cache_lookup ''prior_distribution_memo'' ?s1 = None
        \<or> cache_lookup ''prior_distribution_memo'' ?s1 = Some p"
      using c by (simp add: lookup_after_variational)
    have "cache_lookup ''prior_distribution_memo'' (snd (prior_distribution env ?s1)) = Some p"
      using lookup_prior_after_prior(1) [of env ?s1 p] p i c1 by simp
    with c1 Kl_divergence kl_divergence_state [of env s] show ?thesis
      by auto
  qed
  with b u show ?thesis
    by (simp add: before_initialization_def other_use_frame)
qed

lemma used_prior_before_initialization:
  assumes b: "before_initialization gen points p s" and p: "prior_impl env points = Inr p"
  shows "used_prior env s = Inr p"
proof -
  from b have "cache_lookup ''prior_distribution_memo'' (delete_cached_items s) = None
      \<or> cache_lookup ''prior_distribution_memo'' (delete_cached_items s) = Some p"
    by (auto simp: before_initialization_def delete_cached_items_def cache_lookup_def)
  moreover from b p have "prior_impl env (inducing_points (delete_cached_items s)) = Inr p"
    by (simp add: before_initialization_def)
  ultimately show ?thesis
    unfolding used_prior_def by (rule lookup_prior_after_prior(2) [rotated])
qed

lemma before_initialization_call:
  assumes b: "before_initialization gen points p s"
    and p: "prior_impl env points = Inr p"
    and i: "fst (initialize_variational_distribution env p gen) = Inr ()"
  shows "after_initialization (snd (initialize_variational_distribution env p gen))
           (snd (call env x False r s))"
proof -
  note up = used_prior_before_initialization [OF b p]
  from b have f: "variational_params_initialized s = 0" and g: "generator s = gen"
    and n: "initializations s = 0"
    by (simp_all add: before_initialization_def)
  obtain es where es:
    "variational_params_initialized (snd (call env x False r s)) =
       variational_params_initialized (prepared env s)"
    "generator (snd (call env x False r s)) = generator (prepared env s)"
    using call_tail by blast
  have pr: "preparation env s = Inr ()"
    by (simp add: preparation_cases f up g i)
  show ?thesis
    by (simp add: after_initialization_def es flag_prepared generator_prepared
        initializations_after_call f up g n pr)
qed

lemma after_initialization_use:
  "after_initialization g s \<Longrightarrow> after_initialization g (use_step env s u)"
  using settled_use_frame [of s env u] by (simp add: after_initialization_def)

lemma lifetime_after_initialization:
  "after_initialization g s \<Longrightarrow> after_initialization g (lifetime env s uses)"
  by (induction uses arbitrary: s) (simp_all add: lifetime_def after_initialization_use)

lemma lifetime_before_initialization:
  assumes "before_initialization gen points p s"
    and p: "prior_impl env points = Inr p"
    and i: "fst (initialize_variational_distribution env p gen) = Inr ()"
  shows "if list_ex is_nonprior_call uses
         then after_initialization (snd (initialize_variational_distribution env p gen))
                (lifetime env s uses)
         else before_initialization gen points p (lifetime env s uses)"
  using assms(1)
proof (induction uses arbitrary: s)
  case Nil
  then show ?case
    by (simp add: lifetime_def)
next
  case (Cons u uses)
  show ?case
  proof (cases "is_nonprior_call u")
    case True
    then obtain x r where u: "u = Call x False r"
      by (cases u) auto
    from before_initialization_call [OF Cons.prems p i, of x r]
    have "after_initialization (snd (initialize_variational_distribution env p gen))
        (lifetime env (use_step env s u) uses)"
      unfolding u by (simp add: lifetime_after_initialization)
    with True show ?thesis
      by (simp add: lifetime_def)
  next
    case False
    from Cons.IH [OF before_initialization_other_use [OF Cons.prems p False]] False
    show ?thesis
      by (auto simp: lifetime_def split: if_splits)
  qed
qed

lemma call_fails_in_preparation:
  "preparation env s = Inl e \<Longrightarrow> fst (call env x False r s) = Inl e"
  by (simp add: call_nonprior)

lemma init_strategy_before_initialization:
  "before_initialization gen (inducing_points (init_strategy points gen)) p
     (init_strategy points gen)"
  by (simp add: before_initialization_def init_strategy_def initializations_def cache_lookup_def)

text \<open>
  C4, as stated, fails: \<^verbatim>\<open>initialize_variational_distribution\<close> may raise (here, as a
  prior that does not fit the parameters of the generator does), and the flag is set
  only after it has returned. The first invocation then raises with the flag still 0,
  and the second invocation initialises again: after two invocations the generator has
  been handed the prior twice and the flag is still 0.
\<close>

theorem initialization_retried_counterexample:
  "fst (call (example_failing_env (Delta example_x)) example_x False False example_strategy) =
     Inl example_mismatch
   \<and> variational_params_initialized
       (lifetime (example_failing_env (Delta example_x)) example_strategy
          [Call example_x False False]) = 0
   \<and> initializations
       (lifetime (example_failing_env (Delta example_x)) example_strategy
          [Call example_x False False, Call example_x False False]) = 2
   \<and> generator
       (lifetime (example_failing_env (Delta example_x)) example_strategy
          [Call example_x False False, Call example_x False False]) = 2
   \<and> variational_params_initialized
       (lifetime (example_failing_env (Delta example_x)) example_strategy
          [Call example_x False False, Call example_x False False]) = 0"
  by (simp add: strategy_defs example_defs)

text \<open>
  C4, amended. An invocation without \<open>prior\<close> of an instance whose flag is 0 takes the prior
  from the cached property and hands it, once, to \<^verbatim>\<open>initialize_variational_distribution\<close>
  of the generator, and the generator the instance holds afterwards is the one that
  call leaves; the flag becomes 1 when the call returns, and when it raises, or when the
  prior cannot be computed, the invocation raises the same exception and the flag is
  still 0, so that the next invocation tries again. Once the flag is set, no use of
  the instance changes the flag or the generator or initialises again. For an instance
  whose prior and whose initialisation return, the initialisation has therefore been
  performed exactly once after any sequence of uses that holds an invocation without
  \<open>prior\<close>, and not at all after any other.
\<close>

theorem initialization_until_it_returns:
  "(variational_params_initialized s = 0 \<longrightarrow>
      (case used_prior env s of
         Inl e \<Rightarrow>
           fst (call env x False r s) = Inl e
           \<and> variational_params_initialized (snd (call env x False r s)) = 0
           \<and> generator (snd (call env x False r s)) = generator s
           \<and> initializations (snd (call env x False r s)) = initializations s
       | Inr p \<Rightarrow>
           generator (snd (call env x False r s)) =
             snd (initialize_variational_distribution env p (generator s))
           \<and> filter is_initialization (new_events s (snd (call env x False r s))) =
               [Variational_initialized p]
           \<and> (case fst (initialize_variational_distribution env p (generator s)) of
                 Inl e \<Rightarrow>
                   fst (call env x False r s) = Inl e
                   \<and> variational_params_initialized (snd (call env x False r s)) = 0
               | Inr _ \<Rightarrow> variational_params_initialized (snd (call env x False r s)) = 1)))
   \<and> (variational_params_initialized s \<noteq> 0 \<longrightarrow>
        variational_params_initialized (use_step env s u) = variational_params_initialized s
        \<and> generator (use_step env s u) = generator s
        \<and> initializations (use_step env s u) = initializations s)
   \<and> (prior_impl env (inducing_points (init_strategy points gen)) = Inr p0
        \<and> fst (initialize_variational_distribution env p0 gen) = Inr () \<longrightarrow>
        variational_params_initialized (lifetime env (init_strategy points gen) uses) =
          (if list_ex is_nonprior_call uses then 1 else 0)
        \<and> initializations (lifetime env (init_strategy points gen) uses) =
          (if list_ex is_nonprior_call uses then 1 else 0)
        \<and> generator (lifetime env (init_strategy points gen) uses) =
          (if list_ex is_nonprior_call uses
           then snd (initialize_variational_distribution env p0 gen) else gen))"
proof (intro conjI impI)
  assume f: "variational_params_initialized s = 0"
  obtain es where es:
    "variational_params_initialized (snd (call env x False r s)) =
       variational_params_initialized (prepared env s)"
    "generator (snd (call env x False r s)) = generator (prepared env s)"
    using call_tail by blast
  show "case used_prior env s of
         Inl e \<Rightarrow>
           fst (call env x False r s) = Inl e
           \<and> variational_params_initialized (snd (call env x False r s)) = 0
           \<and> generator (snd (call env x False r s)) = generator s
           \<and> initializations (snd (call env x False r s)) = initializations s
       | Inr p \<Rightarrow>
           generator (snd (call env x False r s)) =
             snd (initialize_variational_distribution env p (generator s))
           \<and> filter is_initialization (new_events s (snd (call env x False r s))) =
               [Variational_initialized p]
           \<and> (case fst (initialize_variational_distribution env p (generator s)) of
                 Inl e \<Rightarrow>
                   fst (call env x False r s) = Inl e
                   \<and> variational_params_initialized (snd (call env x False r s)) = 0
               | Inr _ \<Rightarrow> variational_params_initialized (snd (call env x False r s)) = 1)"
  proof (cases "used_prior env s")
    case (Inl e)
    with f have "preparation env s = Inl e"
      by (simp add: preparation_cases)
    then have "fst (call env x False r s) = Inl e"
      by (rule call_fails_in_preparation)
    with Inl f show ?thesis
      by (simp add: es flag_prepared generator_prepared initializations_after_call
          preparation_cases)
  next
    case (Inr p)
    show ?thesis
    proof (cases "fst (initialize_variational_distribution env p (generator s))")
      case i: (Inl e)
      with Inr f have "preparation env s = Inl e"
        by (simp add: preparation_cases)
      then have "fst (call env x False r s) = Inl e"
        by (rule call_fails_in_preparation)
      with Inr i f show ?thesis
        by (simp add: es flag_prepared generator_prepared initializations_of_call
            preparation_cases)
    next
      case i: (Inr u)
      with Inr f show ?thesis
        by (simp add: es flag_prepared generator_prepared initializations_of_call
            preparation_cases)
    qed
  qed
next
  assume "variational_params_initialized s \<noteq> 0"
  then show "variational_params_initialized (use_step env s u) = variational_params_initialized s"
    "generator (use_step env s u) = generator s"
    "initializations (use_step env s u) = initializations s"
    using settled_use_frame [of s env u] by simp_all
next
  assume a: "prior_impl env (inducing_points (init_strategy points gen)) = Inr p0
        \<and> fst (initialize_variational_distribution env p0 gen) = Inr ()"
  note l = lifetime_before_initialization
    [OF init_strategy_before_initialization conjunct1 [OF a] conjunct2 [OF a], of uses]
  show "variational_params_initialized (lifetime env (init_strategy points gen) uses) =
          (if list_ex is_nonprior_call uses then 1 else 0)"
    "initializations (lifetime env (init_strategy points gen) uses) =
          (if list_ex is_nonprior_call uses then 1 else 0)"
    "generator (lifetime env (init_strategy points gen) uses) =
          (if list_ex is_nonprior_call uses
           then snd (initialize_variational_distribution env p0 gen) else gen)"
    using l by (auto simp: before_initialization_def after_initialization_def split: if_splits)
qed

theorem initialization_until_it_returns_witness:
  "variational_params_initialized example_strategy = 0
   \<and> generator (snd (call (example_env (Delta example_x)) example_x False False
        example_strategy)) = 1
   \<and> variational_params_initialized (snd (call (example_env (Delta example_x)) example_x
        False False example_strategy)) = 1
   \<and> variational_params_initialized (example_settled_strategy (Delta example_x)) \<noteq> 0
   \<and> generator (use_step (example_env (Delta example_x))
        (example_settled_strategy (Delta example_x)) (Call example_x False False)) =
       generator (example_settled_strategy (Delta example_x))
   \<and> initializations (lifetime (example_env (Delta example_x)) (init_strategy example_points 0)
        [Train False, Call example_x False False, Call example_x False False]) = 1
   \<and> generator (lifetime (example_env (Delta example_x)) (init_strategy example_points 0)
        [Train False, Call example_x False False, Call example_x False False]) = 1"
proof -
  let ?E = "example_env (Delta example_x)"
  let ?P = "MultivariateNormal example_points example_points"
  have f: "variational_params_initialized example_strategy = 0"
    "generator example_strategy = 0"
    by (simp_all add: strategy_defs example_defs)
  have p: "used_prior ?E example_strategy = Inr ?P"
    by (simp add: strategy_defs example_defs)
  have i: "initialize_variational_distribution ?E ?P 0 = (Inr (), 1)"
    by (simp add: example_env_def)
  have h: "variational_params_initialized (example_settled_strategy (Delta example_x)) \<noteq> 0"
    by (simp add: strategy_defs example_defs)
  have p0: "prior_impl ?E (inducing_points (init_strategy example_points 0)) = Inr ?P"
    by (simp add: strategy_defs example_defs)
  note t = initialization_until_it_returns
      [where s = example_strategy and env = ?E and x = example_x and r = False
         and u = "Call example_x False False" and points = example_points and gen = 0
         and ?p0.0 = ?P
         and uses = "[Train False, Call example_x False False, Call example_x False False]"]
  note t' = initialization_until_it_returns
      [where s = "example_settled_strategy (Delta example_x)" and env = ?E
         and u = "Call example_x False False"]
  from t f p i have a: "generator (snd (call ?E example_x False False example_strategy)) = 1
     \<and> variational_params_initialized (snd (call ?E example_x False False example_strategy)) = 1"
    by simp
  from t' h have b: "generator (use_step ?E (example_settled_strategy (Delta example_x))
        (Call example_x False False)) = generator (example_settled_strategy (Delta example_x))"
    by blast
  from i have i': "fst (initialize_variational_distribution ?E ?P 0) = Inr ()"
    "snd (initialize_variational_distribution ?E ?P 0) = 1"
    by simp_all
  from t p0 i'(1) have "initializations (lifetime ?E (init_strategy example_points 0)
        [Train False, Call example_x False False, Call example_x False False]) =
        (if list_ex is_nonprior_call
              [Train False, Call example_x False False, Call example_x False False]
         then 1 else 0)
     \<and> generator (lifetime ?E (init_strategy example_points 0)
        [Train False, Call example_x False False, Call example_x False False]) =
        (if list_ex is_nonprior_call
              [Train False, Call example_x False False, Call example_x False False]
         then snd (initialize_variational_distribution ?E ?P 0) else 0)"
    by blast
  then have c: "initializations (lifetime ?E (init_strategy example_points 0)
        [Train False, Call example_x False False, Call example_x False False]) = 1
     \<and> generator (lifetime ?E (init_strategy example_points 0)
        [Train False, Call example_x False False, Call example_x False False]) = 1"
    by (simp add: i'(2))
  from f(1) a h b c show ?thesis
    by simp
qed

subsection \<open>The order within one invocation\<close>

text \<open>
  C5. The log of an invocation without \<open>prior\<close> is ordered by phase: the reset of the
  cache, the initialisation, the retrieval of \<open>q(u)\<close>, the marginalisation. The reset
  happens exactly when the instance is in training mode and has a cache, and is then
  the first thing done. When the invocation initialises, the prior it hands to the
  generator is still in the cache when the invocation ends; when the prior cannot be
  computed, the invocation raises its exception.
\<close>

theorem call_phases_in_order:
  "sorted (map phase (new_events s (snd (call env x False r s))))
   \<and> (training s \<and> memoize_cache s \<noteq> None \<longrightarrow>
        hd (new_events s (snd (call env x False r s))) = Cache_reset)
   \<and> (Cache_reset \<in> set (new_events s (snd (call env x False r s)))
        \<longrightarrow> training s \<and> memoize_cache s \<noteq> None)
   \<and> (variational_params_initialized s = 0 \<longrightarrow>
        (case used_prior env s of
           Inl e \<Rightarrow> fst (call env x False r s) = Inl e
         | Inr p \<Rightarrow>
             Variational_initialized p \<in> set (new_events s (snd (call env x False r s)))
             \<and> cache_lookup ''prior_distribution_memo'' (snd (call env x False r s)) = Some p))"
proof -
  obtain es where es: "new_events s (snd (call env x False r s)) = preparation_events env s @ es"
    "\<forall>e\<in>set es. phase e = 2 \<or> phase e = 3" "sorted (map phase es)"
    using call_new_events by blast
  have p1: "sorted (map phase (preparation_events env s))"
    "\<forall>e\<in>set (preparation_events env s). phase e \<le> 1"
    by (auto simp: preparation_events_def split: sum.splits)
  have s: "sorted (map phase (preparation_events env s @ es))"
    using p1 es(2,3) by (fastforce simp: sorted_append)
  have c: "Cache_reset \<notin> set es"
    using es(2) by fastforce
  have h: "hd (preparation_events env s @ es) = Cache_reset"
    if "training s" "memoize_cache s \<noteq> None"
    using that by (simp add: preparation_events_def)
  have r: "training s \<and> memoize_cache s \<noteq> None"
    if "Cache_reset \<in> set (preparation_events env s @ es)"
    using that c by (auto simp: preparation_events_def split: if_splits sum.splits)
  have i: "case used_prior env s of
           Inl e \<Rightarrow> fst (call env x False r s) = Inl e
         | Inr p \<Rightarrow>
             Variational_initialized p \<in> set (preparation_events env s @ es)
             \<and> cache_lookup ''prior_distribution_memo'' (snd (call env x False r s)) = Some p"
    if f: "variational_params_initialized s = 0"
  proof (cases "used_prior env s")
    case (Inl e)
    with f have "preparation env s = Inl e"
      by (simp add: preparation_cases)
    with Inl show ?thesis
      by (simp add: call_fails_in_preparation)
  next
    case (Inr p)
    with f show ?thesis
      by (simp add: preparation_events_def lookup_after_call prior_survives_prepared)
  qed
  show ?thesis
    unfolding es(1) using s h r i by blast
qed

theorem call_phases_in_order_witness:
  "training example_cached_strategy \<and> memoize_cache example_cached_strategy \<noteq> None
   \<and> variational_params_initialized example_cached_strategy = 0
   \<and> new_events example_cached_strategy
       (snd (call (example_env (Delta example_x)) example_x False False example_cached_strategy)) =
       [Cache_reset, Prior_computed,
        Variational_initialized (MultivariateNormal example_points example_points),
        Variational_generated, Forward_called example_x example_points example_x None]
   \<and> cache_lookup ''prior_distribution_memo''
       (snd (call (example_env (Delta example_x)) example_x False False example_cached_strategy)) =
       Some (MultivariateNormal example_points example_points)"
proof -
  have h: "training example_cached_strategy \<and> memoize_cache example_cached_strategy \<noteq> None
     \<and> variational_params_initialized example_cached_strategy = 0"
    by (simp add: strategy_defs example_defs)
  have p: "used_prior (example_env (Delta example_x)) example_cached_strategy =
      Inr (MultivariateNormal example_points example_points)"
    by (simp add: strategy_defs example_defs)
  have n: "new_events example_cached_strategy
       (snd (call (example_env (Delta example_x)) example_x False False example_cached_strategy)) =
       [Cache_reset, Prior_computed,
        Variational_initialized (MultivariateNormal example_points example_points),
        Variational_generated, Forward_called example_x example_points example_x None]"
    by (simp add: strategy_defs example_defs)
  show ?thesis
    using h p n call_phases_in_order
      [of example_cached_strategy "example_env (Delta example_x)" example_x False]
    by simp
qed

section \<open>Properties of the kernels\<close>

text \<open>
  C10. When \<^verbatim>\<open>hidden_factors\<close> is a list, and so with its default, the constructor of
  the second kernel raises the TypeError of comparing a list with the integer 1, and no
  kernel is built.
\<close>

theorem trapezoidal_init_raises:
  "Trapezoidal_init flow_rejects ls n (PyList hf) kwargs =
     Inl (TypeError ''> not supported between instances of list and int'')
   \<and> Trapezoidal_init flow_rejects ls n default_hidden_factors kwargs =
     Inl (TypeError ''> not supported between instances of list and int'')"
  by (cases hf)
    (simp_all add: Trapezoidal_init_def SpectralAutoregressiveFlowKernel_init_def
      default_hidden_factors_def)

subsection \<open>Auxiliary facts\<close>

lemmas tensor_defs =
  div_t_def sub_t_def mul_t_def binop_def broadcast_shapes_def unsqueeze_def wrap_dim_def
  sum_dim_def mean_dim_def logsumexp_def view_def cos_t_def exp_t_def mul_scalar_def map_t_def
  rsample_def log_prob_def torch_equal_def transpose_dims_def NonFinite_def bidx_def along_def

lemmas kernel_defs =
  forward_grid_def create_input_grid_def diffs_times_Z_def
  norm_probs_def weighted_values_def trapezoidal_forward_def self_normalized_estimate_def
  example_kernel_def example_input_def example_draws_def example_logp_def

lemma then_do_eq_Inr: "then_do m f = Inr y \<longleftrightarrow> (\<exists>v. m = Inr v \<and> f v = Inr y)"
  by (cases m) simp_all

lemma abs_sum_list_le: "(\<forall>v\<in>set xs. \<bar>v\<bar> \<le> 1) \<Longrightarrow> \<bar>sum_list xs\<bar> \<le> real (length xs)"
  for xs :: "real list"
  by (induction xs) auto

lemma sum_list_map_divide: "sum_list (map (\<lambda>s. g s / c) xs) = sum_list (map g xs) / c"
  for c :: real
  by (induction xs) (simp_all add: add_divide_distrib)

lemma sum_list_exp_pos: "xs \<noteq> [] \<Longrightarrow> 0 < sum_list (map (\<lambda>t. exp (f t)) xs)"
  for f :: "'a \<Rightarrow> real"
proof (induction xs)
  case Nil
  then show ?case by simp
next
  case (Cons a xs)
  have "0 \<le> sum_list (map (\<lambda>t. exp (f t)) xs)"
    by (rule sum_list_nonneg) auto
  then show ?case
    by (simp add: add_pos_nonneg)
qed

text \<open>Exponentials of values less the logarithm of the sum of all the exponentials add up to 1.\<close>

lemma softmax_sums_to_one:
  fixes f :: "'a \<Rightarrow> real"
  assumes "xs \<noteq> []"
  shows "sum_list (map (\<lambda>s. exp (f s - ln (sum_list (map (\<lambda>t. exp (f t)) xs)))) xs) = 1"
proof -
  let ?Z = "sum_list (map (\<lambda>t. exp (f t)) xs)"
  have z: "0 < ?Z"
    using assms by (rule sum_list_exp_pos)
  have "exp (f s - ln ?Z) = exp (f s) / ?Z" for s
    using z by (simp add: exp_diff)
  then have "sum_list (map (\<lambda>s. exp (f s - ln ?Z)) xs) =
      sum_list (map (\<lambda>s. exp (f s) / ?Z) xs)"
    by simp
  also have "\<dots> = ?Z / ?Z"
    by (rule sum_list_map_divide)
  also have "\<dots> = 1"
    using z by simp
  finally show ?thesis .
qed

text \<open>The weights of the second kernel, entry by entry.\<close>

lemma norm_probs_diag:
  "norm_probs logp (rsample draws 1000 D) True =
     Inr \<lparr>shape = [1000, 1],
          elem = (\<lambda>idx. exp (logp (ravel [1000, 1] idx) -
                    ln (sum_list (map (\<lambda>t. exp (logp t)) [0..<1000]))))\<rparr>"
  by (simp add: norm_probs_def tensor_defs Let_def comp_def)

lemma norm_probs_full:
  "norm_probs logp (rsample draws 1000 D) False =
     Inr \<lparr>shape = [1000, 1, 1],
          elem = (\<lambda>idx. exp (logp (ravel [1000, 1, 1] idx) -
                    ln (sum_list (map (\<lambda>t. exp (logp t)) [0..<1000]))))\<rparr>"
  by (simp add: norm_probs_def tensor_defs Let_def comp_def)

lemma upt_1000_nonempty: "[0..<1000] \<noteq> []"
  by simp

text \<open>
  Whatever is broadcast against the weights, the result has the 1000 samples at the
  weights' sample axis.
\<close>

lemma bshape_rev_weights_diag:
  assumes b: "bshape_rev xs [1, 1000] = Inr r"
  shows "2 \<le> length r \<and> r ! 1 = 1000"
proof (cases xs)
  case Nil
  with b show ?thesis
    by auto
next
  case outer: (Cons a ys)
  show ?thesis
  proof (cases ys)
    case Nil
    with outer b show ?thesis
      by auto
  next
    case (Cons c zs)
    with outer b show ?thesis
      by (auto simp: then_do_eq_Inr split: if_splits)
  qed
qed

lemma bshape_rev_weights_full:
  assumes b: "bshape_rev xs [1, 1, 1000] = Inr r"
  shows "3 \<le> length r \<and> r ! 2 = 1000"
proof (cases xs)
  case Nil
  with b show ?thesis
    by auto
next
  case (Cons a ys)
  with b obtain r' where r: "r = a # r'" and b': "bshape_rev ys [1, 1000] = Inr r'"
    by (auto simp: then_do_eq_Inr split: if_splits)
  from bshape_rev_weights_diag [OF b'] r show ?thesis
    by auto
qed

lemma broadcast_weights_diag:
  assumes "broadcast_shapes a [1000, 1] = Inr sh"
  shows "2 \<le> length sh \<and> sh ! (length sh - 2) = 1000"
proof -
  from assms obtain r where r: "bshape_rev (rev a) [1, 1000] = Inr r" and sh: "sh = rev r"
    by (auto simp: broadcast_shapes_def then_do_eq_Inr)
  from bshape_rev_weights_diag [OF r] have l: "2 \<le> length r" and n: "r ! 1 = 1000"
    by simp_all
  from l have "rev r ! (length r - 2) = r ! (length r - Suc (length r - 2))"
    by (intro rev_nth) simp
  also from l have "length r - Suc (length r - 2) = 1"
    by simp
  finally show ?thesis
    using l n sh by simp
qed

lemma broadcast_weights_full:
  assumes "broadcast_shapes a [1000, 1, 1] = Inr sh"
  shows "3 \<le> length sh \<and> sh ! (length sh - 3) = 1000"
proof -
  from assms obtain r where r: "bshape_rev (rev a) [1, 1, 1000] = Inr r" and sh: "sh = rev r"
    by (auto simp: broadcast_shapes_def then_do_eq_Inr)
  from bshape_rev_weights_full [OF r] have l: "3 \<le> length r" and n: "r ! 2 = 1000"
    by simp_all
  from l have "rev r ! (length r - 3) = r ! (length r - Suc (length r - 3))"
    by (intro rev_nth) simp
  also from l have "length r - Suc (length r - 3) = 2"
    by simp
  finally show ?thesis
    using l n sh by simp
qed

lemma weighted_values_shape:
  assumes "weighted_values draws logp k x1 x2 diag = Inr V"
  shows "if diag then 2 \<le> length (shape V) \<and> shape V ! (length (shape V) - 2) = 1000
         else 3 \<le> length (shape V) \<and> shape V ! (length (shape V) - 3) = 1000"
proof -
  from assms obtain C w
    where w: "norm_probs logp (rsample draws 1000 (num_dims k)) diag = Inr w"
      and m: "mul_t C w = Inr V"
    by (auto simp: weighted_values_def then_do_eq_Inr Let_def split: prod.splits)
  from m have b: "broadcast_shapes (shape C) (shape w) = Inr (shape V)"
    by (auto simp: mul_t_def binop_def then_do_eq_Inr)
  show ?thesis
  proof (cases diag)
    case True
    with w have "shape w = [1000, 1]"
      by (auto simp: norm_probs_diag)
    with b True show ?thesis
      using broadcast_weights_diag by simp
  next
    case False
    with w have "shape w = [1000, 1, 1]"
      by (auto simp: norm_probs_full)
    with b False show ?thesis
      using broadcast_weights_full by simp
  qed
qed

lemma mean_is_scaled_sum:
  assumes "shape V \<noteq> []" and "wrap_dim d (max 1 (length (shape V))) = Inr p"
    and "shape V ! p = n" and "n \<noteq> 0"
  shows "mean_dim d V = then_do (sum_dim d V) (\<lambda>E. Inr (map_t (\<lambda>v. v / real n) E))"
  using assms by (simp add: mean_dim_def sum_dim_def map_t_def)

subsection \<open>The importance-weighted estimate\<close>

text \<open>
  C1, as stated, fails in what it says of the result: for the single point 0 against
  itself, with equal log-densities, the weighted cosines add up to 1 over the samples
  but the method returns 1/1000.
\<close>

theorem weighted_sum_is_averaged_counterexample:
  "\<not> isl (trapezoidal_forward example_draws example_logp example_kernel
            example_input example_input False)
   \<and> elem (projr (trapezoidal_forward example_draws example_logp example_kernel
                    example_input example_input False)) [0, 0] = 1 / 1000
   \<and> elem (projr (self_normalized_estimate example_draws example_logp example_kernel
                    example_input example_input False)) [0, 0] = 1"
  by (simp add: kernel_defs tensor_defs Let_def comp_def sum_list_triv exp_minus)

text \<open>
  C1, amended. The method draws 1000 samples, weights every cosine by the normalized
  weight of its sample and then takes the mean over the sample axis: what it returns is
  the weighted sum over the samples divided by 1000, and it fails exactly where the
  weighted sum does.
\<close>

theorem trapezoidal_forward_is_scaled_estimate:
  "trapezoidal_forward draws logp k x1 x2 diag =
     then_do (self_normalized_estimate draws logp k x1 x2 diag)
       (\<lambda>E. Inr (map_t (\<lambda>v. v / 1000) E))"
proof (cases "weighted_values draws logp k x1 x2 diag")
  case (Inl e)
  then show ?thesis
    by (simp add: trapezoidal_forward_def self_normalized_estimate_def)
next
  case (Inr V)
  note s = weighted_values_shape [OF Inr]
  show ?thesis
  proof (cases diag)
    case True
    with s have l: "2 \<le> length (shape V)" and n: "shape V ! (length (shape V) - 2) = 1000"
      by simp_all
    from l have ne: "shape V \<noteq> []"
      by auto
    from l have w: "wrap_dim (- 2) (max 1 (length (shape V))) = Inr (length (shape V) - 2)"
      by (auto simp: wrap_dim_def)
    from mean_is_scaled_sum [OF ne w n] True Inr show ?thesis
      by (simp add: trapezoidal_forward_def self_normalized_estimate_def)
  next
    case False
    with s have l: "3 \<le> length (shape V)" and n: "shape V ! (length (shape V) - 3) = 1000"
      by simp_all
    from l have ne: "shape V \<noteq> []"
      by auto
    from l have w: "wrap_dim (- 3) (max 1 (length (shape V))) = Inr (length (shape V) - 3)"
      by (auto simp: wrap_dim_def)
    from mean_is_scaled_sum [OF ne w n] False Inr show ?thesis
      by (simp add: trapezoidal_forward_def self_normalized_estimate_def)
  qed
qed

text \<open>
  C8. In both modes the weights are computed without error, and at every position of
  the grid (whatever the batch index \<open>pre\<close> and the pair \<open>i\<close>, \<open>j\<close>) the weights that
  broadcasting applies there add up to 1 over the 1000 samples.
\<close>

theorem normalized_weights_sum_to_one:
  "(\<exists>w. norm_probs logp (rsample draws 1000 D) True = Inr w \<and> shape w = [1000, 1]
      \<and> (\<forall>pre i. sum_list (map (\<lambda>s. elem w (bidx (shape w) (pre @ [s, i]))) [0..<1000]) = 1))
   \<and> (\<exists>w. norm_probs logp (rsample draws 1000 D) False = Inr w \<and> shape w = [1000, 1, 1]
      \<and> (\<forall>pre i j.
            sum_list (map (\<lambda>s. elem w (bidx (shape w) (pre @ [s, i, j]))) [0..<1000]) = 1))"
  using softmax_sums_to_one [OF upt_1000_nonempty, of logp]
  by (simp add: norm_probs_diag norm_probs_full bidx_def ravel_def)

subsection \<open>The plain kernel\<close>

lemma foldl_fl_add_NaN: "foldl (fl_add m) NaN xs = NaN"
  by (induction xs) simp_all

lemma fl_add_NaN_right: "fl_add m a NaN = NaN"
  by (cases a) simp_all

lemma fl_sum_NaN: "NaN \<in> set xs \<Longrightarrow> foldl (fl_add m) a xs = NaN"
  by (induction xs arbitrary: a) (auto simp: foldl_fl_add_NaN fl_add_NaN_right)

lemma fl_sum_bounded:
  "(\<forall>v\<in>set xs. \<bar>v\<bar> \<le> 1) \<Longrightarrow> \<bar>a\<bar> + real (length xs) \<le> m \<Longrightarrow>
   foldl (fl_add m) (Finite a) (map Finite xs) = Finite (a + sum_list xs)"
proof (induction xs arbitrary: a)
  case Nil
  then show ?case
    by simp
next
  case (Cons x xs)
  from Cons.prems have x: "\<bar>x\<bar> \<le> 1" and m: "\<bar>a\<bar> + 1 + real (length xs) \<le> m"
    by simp_all
  from x m have "\<bar>a + x\<bar> \<le> m"
    by linarith
  then have "fl_add m (Finite a) (Finite x) = Finite (a + x)"
    by (auto simp: to_fl_def)
  moreover have "foldl (fl_add m) (Finite (a + x)) (map Finite xs) = Finite (a + x + sum_list xs)"
    using Cons.prems x m by (intro Cons.IH) auto
  ultimately show ?case
    by (simp add: add.assoc)
qed

lemma all_finite_map: "list_all is_finite xs \<Longrightarrow> \<exists>vs. xs = map Finite vs"
proof (induction xs)
  case Nil
  then show ?case
    by simp
next
  case (Cons x xs)
  then obtain vs where "xs = map Finite vs"
    by auto
  moreover from Cons.prems obtain v where "x = Finite v"
    by (cases x) simp_all
  ultimately have "x # xs = map Finite (v # vs)"
    by simp
  then show ?case
    by (rule exI)
qed

lemma not_finite_cos_NaN: "\<not> list_all is_finite xs \<Longrightarrow> NaN \<in> set (map fl_cos xs)"
proof (induction xs)
  case Nil
  then show ?case
    by simp
next
  case (Cons x xs)
  then show ?case
    by (cases x) auto
qed

text \<open>The mean of the cosines of 2000 phases.\<close>

lemma mean_of_cosines:
  assumes n: "length xs = 2000" and m: "2000 \<le> m"
  shows "if list_all is_finite xs
         then \<exists>v. fl_div m (fl_sum m (map fl_cos xs)) (to_fl m 2000) = Finite v \<and> - 1 \<le> v \<and> v \<le> 1
         else fl_div m (fl_sum m (map fl_cos xs)) (to_fl m 2000) = NaN"
proof (cases "list_all is_finite xs")
  case True
  then obtain vs where vs: "xs = map Finite vs"
    using all_finite_map by blast
  with n have l: "length vs = 2000"
    by simp
  have c: "map fl_cos xs = map Finite (map cos vs)"
    by (simp add: vs)
  have b: "\<forall>v\<in>set (map cos vs). \<bar>v\<bar> \<le> 1"
    by (auto simp: abs_le_iff intro: cos_ge_minus_one)
  have s: "fl_sum m (map fl_cos xs) = Finite (sum_list (map cos vs))"
    unfolding fl_sum_def c using fl_sum_bounded [OF b, of 0 m] l m by simp
  have a: "\<bar>sum_list (map cos vs)\<bar> \<le> 2000"
    using abs_sum_list_le [OF b] l by simp
  then have r: "- 1 \<le> sum_list (map cos vs) / 2000 \<and> sum_list (map cos vs) / 2000 \<le> 1"
    by (simp add: abs_le_iff)
  from m r have e: "fl_div m (fl_sum m (map fl_cos xs)) (to_fl m 2000) =
      Finite (sum_list (map cos vs) / 2000)"
    by (simp add: s to_fl_def)
  have "\<exists>v. fl_div m (fl_sum m (map fl_cos xs)) (to_fl m 2000) = Finite v \<and> - 1 \<le> v \<and> v \<le> 1"
    unfolding e using r by blast
  with True show ?thesis
    by simp
next
  case False
  then have "NaN \<in> set (map fl_cos xs)"
    by (rule not_finite_cos_NaN)
  then have "fl_sum m (map fl_cos xs) = NaN"
    unfolding fl_sum_def by (rule fl_sum_NaN)
  with False show ?thesis
    by simp
qed

text \<open>
  Whatever is broadcast against the samples, the result has the 2000 samples at the
  samples' axis.
\<close>

lemma bshape_rev_samples_diag:
  assumes b: "bshape_rev [D, 1, 2000] ys = Inr r"
  shows "3 \<le> length r \<and> r ! 2 = 2000"
proof (cases ys)
  case Nil
  with b show ?thesis
    by auto
next
  case one: (Cons a as)
  show ?thesis
  proof (cases as)
    case Nil
    with one b show ?thesis
      by (auto split: if_splits)
  next
    case two: (Cons c cs)
    show ?thesis
    proof (cases cs)
      case Nil
      with one two b show ?thesis
        by (auto simp: then_do_eq_Inr split: if_splits)
    next
      case (Cons e es)
      with one two b show ?thesis
        by (auto simp: then_do_eq_Inr split: if_splits)
    qed
  qed
qed

lemma bshape_rev_samples_full:
  assumes b: "bshape_rev [D, 1, 1, 2000] ys = Inr r"
  shows "4 \<le> length r \<and> r ! 3 = 2000"
proof (cases ys)
  case Nil
  with b show ?thesis
    by auto
next
  case one: (Cons a as)
  show ?thesis
  proof (cases as)
    case Nil
    with one b show ?thesis
      by (auto split: if_splits)
  next
    case two: (Cons c cs)
    show ?thesis
    proof (cases cs)
      case Nil
      with one two b show ?thesis
        by (auto simp: then_do_eq_Inr split: if_splits)
    next
      case three: (Cons e es)
      show ?thesis
      proof (cases es)
        case Nil
        with one two three b show ?thesis
          by (auto simp: then_do_eq_Inr split: if_splits)
      next
        case (Cons g gs)
        with one two three b show ?thesis
          by (auto simp: then_do_eq_Inr split: if_splits)
      qed
    qed
  qed
qed

lemma sum_last_shape:
  assumes s: "sum_dim_fl m (- 1) t = Inr u" and n: "shape t \<noteq> []"
  shows "shape u = butlast (shape t)"
proof -
  from n have "wrap_dim (- 1) (max 1 (length (shape t))) = Inr (length (shape t) - 1)"
    by (cases "shape t") (simp_all add: wrap_dim_def)
  with s n show ?thesis
    by (auto simp: sum_dim_fl_def butlast_conv_take)
qed

lemma diffs_times_Z_fl_shape:
  assumes d: "diffs_times_Z_fl m (rsample_fl draws 2000 D) differences diag = Inr dtz"
  shows "(if diag then 2 else 3) \<le> length (shape dtz)
         \<and> shape dtz ! (length (shape dtz) - (if diag then 2 else 3)) = 2000"
proof (cases diag)
  case True
  with d obtain a b t where a: "unsqueeze (- 2) (rsample_fl draws 2000 D) = Inr a"
    and t: "binop (fl_mul m) a b = Inr t" and s: "sum_dim_fl m (- 1) t = Inr dtz"
    by (auto simp: diffs_times_Z_fl_def then_do_eq_Inr)
  from a have "shape a = [2000, 1, D]"
    by (auto simp: unsqueeze_def wrap_dim_def rsample_fl_def)
  with t obtain r where r: "bshape_rev [D, 1, 2000] (rev (shape b)) = Inr r"
    and sh: "shape t = rev r"
    by (auto simp: binop_def broadcast_shapes_def then_do_eq_Inr)
  from bshape_rev_samples_diag [OF r] have l: "3 \<le> length r" and e: "r ! 2 = 2000"
    by simp_all
  from l sh have n: "shape t \<noteq> []"
    by auto
  have u: "shape dtz = butlast (rev r)"
    using sum_last_shape [OF s n] sh by simp
  from l have "length r - 3 < length (butlast (rev r))"
    by simp
  then have "butlast (rev r) ! (length r - 3) = rev r ! (length r - 3)"
    by (rule nth_butlast)
  also from l have "\<dots> = r ! (length r - Suc (length r - 3))"
    by (intro rev_nth) simp
  also from l have "length r - Suc (length r - 3) = 2"
    by simp
  finally have val: "shape dtz ! (length r - 3) = 2000"
    unfolding u e .
  from u have len: "length (shape dtz) = length r - 1"
    by simp
  from len l have idx: "length (shape dtz) - 2 = length r - 3"
    by simp
  from len l have "2 \<le> length (shape dtz)"
    by simp
  moreover have "shape dtz ! (length (shape dtz) - 2) = 2000"
    unfolding idx by (rule val)
  ultimately show ?thesis
    using True by simp
next
  case False
  with d obtain a b t
    where a: "then_do (unsqueeze (- 2) (rsample_fl draws 2000 D)) (unsqueeze (- 2)) = Inr a"
    and t: "binop (fl_mul m) a b = Inr t" and s: "sum_dim_fl m (- 1) t = Inr dtz"
    by (auto simp: diffs_times_Z_fl_def then_do_eq_Inr)
  from a have "shape a = [2000, 1, 1, D]"
    by (auto simp: unsqueeze_def wrap_dim_def rsample_fl_def then_do_eq_Inr)
  with t obtain r where r: "bshape_rev [D, 1, 1, 2000] (rev (shape b)) = Inr r"
    and sh: "shape t = rev r"
    by (auto simp: binop_def broadcast_shapes_def then_do_eq_Inr)
  from bshape_rev_samples_full [OF r] have l: "4 \<le> length r" and e: "r ! 3 = 2000"
    by simp_all
  from l sh have n: "shape t \<noteq> []"
    by auto
  have u: "shape dtz = butlast (rev r)"
    using sum_last_shape [OF s n] sh by simp
  from l have "length r - 4 < length (butlast (rev r))"
    by simp
  then have "butlast (rev r) ! (length r - 4) = rev r ! (length r - 4)"
    by (rule nth_butlast)
  also from l have "\<dots> = r ! (length r - Suc (length r - 4))"
    by (intro rev_nth) simp
  also from l have "length r - Suc (length r - 4) = 3"
    by simp
  finally have val: "shape dtz ! (length r - 4) = 2000"
    unfolding u e .
  from u have len: "length (shape dtz) = length r - 1"
    by simp
  from len l have idx: "length (shape dtz) - 3 = length r - 4"
    by simp
  from len l have "3 \<le> length (shape dtz)"
    by simp
  moreover have "shape dtz ! (length (shape dtz) - 3) = 2000"
    unfolding idx by (rule val)
  ultimately show ?thesis
    using False by simp
qed

lemma phases_shape:
  assumes p: "phases m draws k x1 x2 diag = Inr ph"
  shows "(if diag then 2 else 3) \<le> length (shape ph)
         \<and> shape ph ! (length (shape ph) - (if diag then 2 else 3)) = 2000"
proof -
  from p obtain differences dtz
    where d: "diffs_times_Z_fl m (rsample_fl draws 2000 (num_dims k)) differences diag = Inr dtz"
      and s: "shape ph = shape dtz"
    by (auto simp: phases_def then_do_eq_Inr Let_def map_t_def split: prod.splits)
  from diffs_times_Z_fl_shape [OF d] s show ?thesis
    by simp
qed

lemma fl_sum_all_NaN: "xs \<noteq> [] \<Longrightarrow> foldl (fl_add m) a (map (\<lambda>s. NaN) xs) = NaN"
  by (rule fl_sum_NaN) (cases xs, simp_all)

text \<open>
  C9, as stated, fails: in single precision, for the point \<open>3e38\<close> against the point
  \<open>-3e38\<close> with lengthscale 1, the difference of the two overflows, every phase is
  infinite, and the entry of the result is NaN.
\<close>

theorem spectral_forward_nan_counterexample:
  "\<not> isl (spectral_forward float32_max example_samples example_kernel
            example_high example_low False)
   \<and> elem (projr (spectral_forward float32_max example_samples example_kernel
                    example_high example_low False)) [0, 0] = NaN"
  by (simp add: spectral_forward_def phases_def forward_grid_fl_def create_input_grid_fl_def
      diffs_times_Z_fl_def rsample_fl_def mean_dim_fl_def sum_dim_fl_def fl_sum_def fl_sub_def
      binop_def broadcast_shapes_def unsqueeze_def wrap_dim_def map_t_def bidx_def along_def
      to_fl_def float32_max_def example_kernel_def example_high_def example_low_def
      example_samples_def Let_def fl_sum_all_NaN)

text \<open>
  C9, amended. Where the plain kernel returns, in either mode and for a dtype whose
  largest finite number is at least 2000, every entry of the result is the mean over the
  2000 samples of the cosines of the phases behind it: a number between -1 and 1 when
  all these phases are finite, and NaN as soon as one of them is an infinity or NaN.
\<close>

theorem spectral_forward_bounded_or_nan:
  assumes k: "spectral_forward fmax draws k x1 x2 diag = Inr K" and m: "2000 \<le> fmax"
  shows "\<exists>ph. phases fmax draws k x1 x2 diag = Inr ph
           \<and> length (phases_of_entry ph diag idx) = 2000
           \<and> (if list_all is_finite (phases_of_entry ph diag idx)
              then \<exists>v. elem K idx = Finite v \<and> - 1 \<le> v \<and> v \<le> 1
              else elem K idx = NaN)"
proof -
  from k obtain ph where p: "phases fmax draws k x1 x2 diag = Inr ph"
    and e: "mean_dim_fl fmax (if diag then - 2 else - 3) (map_t fl_cos ph) = Inr K"
    by (auto simp: spectral_forward_def then_do_eq_Inr)
  define q where "q = length (shape ph) - (if diag then 2 else 3)"
  from phases_shape [OF p] have l: "(if diag then 2 else 3) \<le> length (shape ph)"
    and n: "shape ph ! q = 2000"
    by (simp_all add: q_def)
  from l have w: "wrap_dim (if diag then - 2 else - 3) (max 1 (length (shape ph))) = Inr q"
    by (auto simp: wrap_dim_def q_def)
  from l have ne: "shape ph \<noteq> []"
    by (auto split: if_splits)
  have a: "along q (map_t fl_cos ph) idx = map fl_cos (along q ph idx)"
    by (simp add: along_def map_t_def comp_def)
  from e w ne n have v: "elem K idx =
      fl_div fmax (fl_sum fmax (map fl_cos (along q ph idx))) (to_fl fmax 2000)"
    by (auto simp: mean_dim_fl_def map_t_def a [unfolded map_t_def])
  have len: "length (along q ph idx) = 2000"
    by (simp add: along_def n)
  from mean_of_cosines [OF len m] have
    "if list_all is_finite (along q ph idx)
     then \<exists>v. elem K idx = Finite v \<and> - 1 \<le> v \<and> v \<le> 1
     else elem K idx = NaN"
    by (simp add: v)
  with p len show ?thesis
    unfolding phases_of_entry_def q_def by blast
qed

theorem spectral_forward_bounded_or_nan_witness:
  "\<exists>K v. spectral_forward float32_max example_samples example_kernel
            example_zero example_zero False = Inr K
     \<and> elem K [0, 0] = Finite v \<and> - 1 \<le> v \<and> v \<le> 1"
proof -
  obtain ph
    where p: "phases float32_max example_samples example_kernel example_zero example_zero False =
        Inr ph"
      and s: "shape ph = [2000, 1, 1]" and e: "\<forall>s. elem ph [s, 0, 0] = Finite 0"
    by (simp add: phases_def forward_grid_fl_def create_input_grid_fl_def
      diffs_times_Z_fl_def rsample_fl_def sum_dim_fl_def fl_sum_def fl_sub_def
      binop_def broadcast_shapes_def unsqueeze_def wrap_dim_def map_t_def bidx_def along_def
      to_fl_def float32_max_def example_kernel_def example_zero_def
      example_samples_def Let_def)
  obtain K where k: "spectral_forward float32_max example_samples example_kernel
      example_zero example_zero False = Inr K"
    by (simp add: spectral_forward_def p s mean_dim_fl_def wrap_dim_def map_t_def)
  have f: "list_all is_finite (phases_of_entry ph False [0, 0])"
    by (simp add: phases_of_entry_def along_def list_all_iff s e)
  have m: "2000 \<le> float32_max"
    by (simp add: float32_max_def)
  from spectral_forward_bounded_or_nan [OF k m, of "[0, 0]"] p f k show ?thesis
    by auto
qed

subsection \<open>The input grid\<close>

text \<open>
  C6, as stated, fails: a kernel evaluation with \<open>diag\<close> set, on a point set against
  itself, goes through the grid construction without any comparison of the inputs.
\<close>

theorem no_equality_check_in_forward_counterexample:
  "torch_equal example_input example_input
   \<and> \<not> isl (forward_grid example_kernel example_input example_input True)
   \<and> snd (projr (forward_grid example_kernel example_input example_input True)) = []"
  by (simp add: kernel_defs tensor_defs list.pred_True)

text \<open>
  C6, amended. The comparison of the inputs belongs to the \<^verbatim>\<open>last_dim_is_batch\<close> branch
  of the grid construction: there, for equal inputs and in either mode, the transform of
  \<open>x2\<close> is skipped and the transformed \<open>x1\<close> serves for both sides. Without
  \<^verbatim>\<open>last_dim_is_batch\<close>, and so in every kernel evaluation, no comparison is made, and
  with \<open>diag\<close> set the two inputs, each divided by the lengthscale, are the grid.
\<close>

theorem equality_check_only_in_batch_branch:
  "(torch_equal x1 x2 \<longrightarrow> create_input_grid x1 x2 diag True = Inr (g, steps) \<longrightarrow>
      steps = [Transformed_x1, Compared, Reused_x1] \<and> (diag \<longrightarrow> fst g = snd g))
   \<and> (create_input_grid x1 x2 diag False = Inr (g', steps') \<longrightarrow>
        steps' = [] \<and> (diag \<longrightarrow> g' = (x1, x2)))
   \<and> (forward_grid k x1 x2 diag = Inr (g'', steps'') \<longrightarrow>
        steps'' = []
        \<and> (diag \<longrightarrow> div_t x1 (lengthscale k) = Inr (fst g'')
                   \<and> div_t x2 (lengthscale k) = Inr (snd g'')))"
  by (auto simp: create_input_grid_def forward_grid_def then_do_eq_Inr split: if_splits)

theorem equality_check_only_in_batch_branch_witness:
  "torch_equal example_input example_input
   \<and> snd (projr (create_input_grid example_input example_input True True)) =
       [Transformed_x1, Compared, Reused_x1]
   \<and> fst (fst (projr (create_input_grid example_input example_input True True))) =
       snd (fst (projr (create_input_grid example_input example_input True True)))
   \<and> snd (projr (forward_grid example_kernel example_input example_input True)) = []"
proof -
  have e: "torch_equal example_input example_input"
    by (simp add: kernel_defs tensor_defs list.pred_True)
  obtain g steps
    where c: "create_input_grid example_input example_input True True = Inr (g, steps)"
    by (simp add: kernel_defs tensor_defs list.pred_True)
  obtain g' steps'
    where c': "create_input_grid example_input example_input True False = Inr (g', steps')"
    by (simp add: kernel_defs tensor_defs list.pred_True)
  obtain g'' steps''
    where f: "forward_grid example_kernel example_input example_input True = Inr (g'', steps'')"
    by (simp add: kernel_defs tensor_defs list.pred_True)
  from equality_check_only_in_batch_branch
    [of example_input example_input True g steps g' steps' example_kernel g'' steps''] e c c' f
  show ?thesis
    by simp
qed

end
